theory Spec2Isabelle
  imports Main
begin

section \<open>A static file server: \<^verbatim>\<open>src/py/serve.py\<close>\<close>

text \<open>
  The program is one Python module. It registers two MIME types, derives the class
  \<^verbatim>\<open>ResilientTCPServer\<close> from the standard library's
  \<^verbatim>\<open>socketserver.ThreadingTCPServer\<close>, overriding one attribute and one method,
  parses one command-line option and starts the server.

  The module's own statements are embedded below under their own names. Whatever the
  module inherits or calls from the Python standard library is embedded from the
  library's source (CPython 3.11: \<^verbatim>\<open>socketserver.py\<close>, \<^verbatim>\<open>mimetypes.py\<close>,
  \<^verbatim>\<open>genericpath.py\<close>, \<^verbatim>\<open>urllib/parse.py\<close>, \<^verbatim>\<open>argparse.py\<close>, \<^verbatim>\<open>http/server.py\<close>),
  each definition naming the library function it follows and quoting its text. What
  belongs to the operating system, to the interpreter or to parts of the library that
  are not followed (the outcome of \<^verbatim>\<open>bind\<close>, the built-in \<^verbatim>\<open>int\<close>, the file system, the
  translation of a request path) is a parameter of the definitions that use it.

  Strings are lists of characters, bytes are lists of characters too. Where the library
  classifies characters (lower case, digits) the definitions do so for ASCII.
\<close>

section \<open>Exceptions and the state of the process\<close>

text \<open>
  The exception classes that matter here, with the built-in hierarchy
  \<^verbatim>\<open>BaseException > Exception > OSError > ConnectionError > BrokenPipeError\<close> and so on.
  \<open>Subclass name base\<close> is a class that some code defines as
  \<^verbatim>\<open>class name(base)\<close>. Two classes are the same object exactly when the two terms are
  equal.
\<close>

datatype exc_class =
    BaseException
  | SystemExit
  | KeyboardInterrupt
  | Exception
  | ValueError
  | OverflowError
  | OSError
  | PermissionError
  | ConnectionError
  | BrokenPipeError
  | ConnectionAbortedError
  | ConnectionRefusedError
  | ConnectionResetError
  | Subclass string exc_class

text \<open>The method resolution order of a class: the class itself, then its ancestors.\<close>

fun mro :: "exc_class \<Rightarrow> exc_class list" where
  "mro BaseException = [BaseException]"
| "mro SystemExit = [SystemExit, BaseException]"
| "mro KeyboardInterrupt = [KeyboardInterrupt, BaseException]"
| "mro Exception = [Exception, BaseException]"
| "mro ValueError = [ValueError, Exception, BaseException]"
| "mro OverflowError = [OverflowError, Exception, BaseException]"
| "mro OSError = [OSError, Exception, BaseException]"
| "mro PermissionError = [PermissionError, OSError, Exception, BaseException]"
| "mro ConnectionError = [ConnectionError, OSError, Exception, BaseException]"
| "mro BrokenPipeError =
     [BrokenPipeError, ConnectionError, OSError, Exception, BaseException]"
| "mro ConnectionAbortedError =
     [ConnectionAbortedError, ConnectionError, OSError, Exception, BaseException]"
| "mro ConnectionRefusedError =
     [ConnectionRefusedError, ConnectionError, OSError, Exception, BaseException]"
| "mro ConnectionResetError =
     [ConnectionResetError, ConnectionError, OSError, Exception, BaseException]"
| "mro (Subclass name base) = Subclass name base # mro base"

definition issubclass :: "exc_class \<Rightarrow> exc_class \<Rightarrow> bool" where
  "issubclass c d = (d \<in> set (mro c))"

text \<open>
  An exception instance: its class, its message and its formatted traceback (the lines
  that \<^verbatim>\<open>traceback.print_exc\<close> writes for it).
\<close>

datatype exc = Exc (exc_cls: exc_class) (exc_msg: string) (exc_tb: "string list")

text \<open>
  The part of the process state the program reads and writes: the exception being
  handled (what \<^verbatim>\<open>sys.exc_info()\<close> reports) and the lines written so far to standard
  output and standard error.
\<close>

record world =
  handled :: "exc option"
  stdout :: "string list"
  stderr :: "string list"

text \<open>
  A call either returns or raises; either way it leaves a process state behind.
\<close>

datatype 'a outcome = Returned 'a | Raised exc 'a

text \<open>
  \<^verbatim>\<open>sys.exc_info()\<close>: the triple (type, value, traceback) of the exception being handled,
  \<^verbatim>\<open>(None, None, None)\<close> when there is none.
\<close>

definition sys_exc_info :: "world \<Rightarrow> exc_class option \<times> exc option \<times> string list option" where
  "sys_exc_info w =
     (case handled w of
        None \<Rightarrow> (None, None, None)
      | Some e \<Rightarrow> (Some (exc_cls e), Some e, Some (exc_tb e)))"

section \<open>Error handling of the server\<close>

text \<open>
  \<^verbatim>\<open>traceback.print_exc()\<close> writes the traceback of the exception being handled to
  standard error, and the line \<^verbatim>\<open>NoneType: None\<close> when there is none.
\<close>

definition print_exc :: "world \<Rightarrow> world" where
  "print_exc w =
     w\<lparr>stderr := stderr w @
          (case handled w of None \<Rightarrow> [''NoneType: None''] | Some e \<Rightarrow> exc_tb e)\<rparr>"

text \<open>
  \<^verbatim>\<open>socketserver.BaseServer.handle_error\<close>, the method that \<^verbatim>\<open>ResilientTCPServer\<close>
  overrides and calls as \<^verbatim>\<open>super().handle_error\<close>:
  \<^verbatim>\<open>
    print('-'*40, file=sys.stderr)
    print('Exception occurred during processing of request from',
        client_address, file=sys.stderr)
    import traceback
    traceback.print_exc()
    print('-'*40, file=sys.stderr)
  \<close>
  \<open>client_address\<close> is the address as \<^verbatim>\<open>print\<close> shows it.
\<close>

definition BaseServer_handle_error :: "'req \<Rightarrow> string \<Rightarrow> world \<Rightarrow> world outcome" where
  "BaseServer_handle_error request client_address w =
     (let w1 = w\<lparr>stderr := stderr w @ [replicate 40 CHR ''-'']\<rparr>;
          w2 = w1\<lparr>stderr := stderr w1 @
                 [''Exception occurred during processing of request from '' @ client_address]\<rparr>;
          w3 = print_exc w2
      in Returned (w3\<lparr>stderr := stderr w3 @ [replicate 40 CHR ''-'']\<rparr>))"

text \<open>
  \<^verbatim>\<open>ResilientTCPServer.handle_error\<close> (serve.py, lines 15 to 19):
  \<^verbatim>\<open>
    exc_type, exc, _ = sys.exc_info()
    if exc_type in (BrokenPipeError, ConnectionResetError):
        return
    super().handle_error(request, client_address)
  \<close>
  The test \<^verbatim>\<open>in\<close> compares \<open>exc_type\<close>, a class or \<^verbatim>\<open>None\<close>, with the two members of
  the tuple.
\<close>

definition handle_error :: "'req \<Rightarrow> string \<Rightarrow> world \<Rightarrow> world outcome" where
  "handle_error request client_address w =
     (case sys_exc_info w of
        (exc_type, exc, _) \<Rightarrow>
          if exc_type \<in> set [Some BrokenPipeError, Some ConnectionResetError]
          then Returned w
          else BaseServer_handle_error request client_address w)"

text \<open>
  \<^verbatim>\<open>socketserver.ThreadingMixIn.process_request_thread\<close>, which runs in the thread of
  one connection and is the caller of \<open>handle_error\<close>:
  \<^verbatim>\<open>
    try:
        self.finish_request(request, client_address)
    except Exception:
        self.handle_error(request, client_address)
    finally:
        self.shutdown_request(request)
  \<close>
  \<open>finish_request\<close> (the request handler at work) and \<open>shutdown_request\<close> (closing the
  connection) are parameters. Inside the \<^verbatim>\<open>except\<close> block the exception caught is the one
  being handled; leaving the block restores what was handled before.
\<close>

definition process_request_thread ::
  "('req \<Rightarrow> string \<Rightarrow> world \<Rightarrow> world outcome) \<Rightarrow> ('req \<Rightarrow> world \<Rightarrow> world) \<Rightarrow>
   'req \<Rightarrow> string \<Rightarrow> world \<Rightarrow> world outcome" where
  "process_request_thread finish_request shutdown_request request client_address w =
     (case finish_request request client_address w of
        Returned w1 \<Rightarrow> Returned (shutdown_request request w1)
      | Raised e w1 \<Rightarrow>
          if issubclass (exc_cls e) Exception
          then (case handle_error request client_address (w1\<lparr>handled := Some e\<rparr>) of
                  Returned w2 \<Rightarrow> Returned (shutdown_request request (w2\<lparr>handled := handled w1\<rparr>))
                | Raised e' w2 \<Rightarrow> Raised e' (shutdown_request request (w2\<lparr>handled := Some e'\<rparr>)))
          else Raised e (shutdown_request request (w1\<lparr>handled := Some e\<rparr>)))"


section \<open>The MIME registry and the content type of a file\<close>

subsection \<open>Strings\<close>

text \<open>
  Python's \<^verbatim>\<open>str.rfind\<close> and \<^verbatim>\<open>str.find\<close> for one character: the highest and the
  lowest index at which it occurs, \<open>-1\<close> when it does not occur.
\<close>

fun rfind_aux :: "string \<Rightarrow> char \<Rightarrow> int \<Rightarrow> int \<Rightarrow> int" where
  "rfind_aux [] c i r = r"
| "rfind_aux (x # xs) c i r = rfind_aux xs c (i + 1) (if x = c then i else r)"

definition rfind :: "string \<Rightarrow> char \<Rightarrow> int" where
  "rfind p c = rfind_aux p c 0 (- 1)"

fun find_aux :: "string \<Rightarrow> char \<Rightarrow> int \<Rightarrow> int" where
  "find_aux [] c i = - 1"
| "find_aux (x # xs) c i = (if x = c then i else find_aux xs c (i + 1))"

definition find_char :: "string \<Rightarrow> char \<Rightarrow> int" where
  "find_char p c = find_aux p c 0"

text \<open>
  \<^verbatim>\<open>str.lower\<close>, on the ASCII letters; every other character is left as it is.
\<close>

definition lower_char :: "char \<Rightarrow> char" where
  "lower_char c =
     (case map_of (zip ''ABCDEFGHIJKLMNOPQRSTUVWXYZ'' ''abcdefghijklmnopqrstuvwxyz'') c of
        Some d \<Rightarrow> d
      | None \<Rightarrow> c)"

definition lower :: "string \<Rightarrow> string" where
  "lower s = map lower_char s"

subsection \<open>Splitting the extension from a path\<close>

text \<open>
  \<^verbatim>\<open>genericpath._splitext(p, sep, altsep, extsep)\<close>, called by \<^verbatim>\<open>posixpath.splitext\<close>
  with \<^verbatim>\<open>sep = '/'\<close>, \<^verbatim>\<open>altsep = None\<close> and \<^verbatim>\<open>extsep = '.'\<close>:
  \<^verbatim>\<open>
    sepIndex = p.rfind(sep)
    dotIndex = p.rfind(extsep)
    if dotIndex > sepIndex:
        # skip all leading dots
        filenameIndex = sepIndex + 1
        while filenameIndex < dotIndex:
            if p[filenameIndex:filenameIndex+1] != extsep:
                return p[:dotIndex], p[dotIndex:]
            filenameIndex += 1
    return p, p[:0]
  \<close>
  \<open>splitext_loop\<close> is the \<^verbatim>\<open>while\<close> loop.
\<close>

function splitext_loop :: "string \<Rightarrow> nat \<Rightarrow> nat \<Rightarrow> string \<times> string" where
  "splitext_loop p filenameIndex dotIndex =
     (if filenameIndex < dotIndex
      then if take 1 (drop filenameIndex p) \<noteq> ''.''
           then (take dotIndex p, drop dotIndex p)
           else splitext_loop p (Suc filenameIndex) dotIndex
      else (p, []))"
  by pat_completeness auto
termination
  by (relation "measure (\<lambda>(p, filenameIndex, dotIndex). dotIndex - filenameIndex)") auto

declare splitext_loop.simps [simp del]

definition splitext :: "string \<Rightarrow> string \<times> string" where
  "splitext p =
     (let sepIndex = rfind p CHR ''/'';
          dotIndex = rfind p CHR ''.''
      in if dotIndex > sepIndex
         then splitext_loop p (nat (sepIndex + 1)) (nat dotIndex)
         else (p, []))"

text \<open>What \<open>rfind\<close> and \<open>splitext\<close> compute; the loop below needs it to terminate.\<close>

lemma rfind_aux_append:
  "rfind_aux (xs @ ys) c i r = rfind_aux ys c (i + int (length xs)) (rfind_aux xs c i r)"
  by (induction xs arbitrary: i r) (simp_all add: algebra_simps)

lemma rfind_aux_notin: "c \<notin> set ys \<Longrightarrow> rfind_aux ys c i r = r"
  by (induction ys arbitrary: i) auto

lemma rfind_append_notin: "c \<notin> set ys \<Longrightarrow> rfind (xs @ ys) c = rfind xs c"
  by (simp add: rfind_def rfind_aux_append rfind_aux_notin)

lemma rfind_last_occurrence: "c \<notin> set ys \<Longrightarrow> rfind (xs @ c # ys) c = int (length xs)"
  by (simp add: rfind_def rfind_aux_append rfind_aux_notin)

lemma rfind_aux_less: "r < i + int (length p) \<Longrightarrow> rfind_aux p c i r < i + int (length p)"
proof (induction p arbitrary: i r)
  case Nil
  then show ?case by simp
next
  case (Cons x xs)
  have "rfind_aux xs c (i + 1) (if x = c then i else r) < (i + 1) + int (length xs)"
    using Cons.prems by (intro Cons.IH) auto
  then show ?case by simp
qed

lemma rfind_less_length: "rfind p c < int (length p)"
  using rfind_aux_less [of "- 1" 0 p c] by (cases p) (auto simp: rfind_def)

lemma splitext_loop_eq:
  "d \<le> length p \<Longrightarrow>
   splitext_loop p i d =
     (if \<exists>j. i \<le> j \<and> j < d \<and> p ! j \<noteq> CHR ''.'' then (take d p, drop d p) else (p, []))"
proof (induction p i d rule: splitext_loop.induct)
  case (1 p i d)
  show ?case
  proof (cases "i < d")
    case False
    then show ?thesis
      by (subst splitext_loop.simps) auto
  next
    case True
    with "1.prems" have il: "i < length p" by simp
    then have t: "take 1 (drop i p) = [p ! i]"
      by (simp flip: Cons_nth_drop_Suc)
    show ?thesis
    proof (cases "p ! i = CHR ''.''")
      case False
      with True t show ?thesis
        by (subst splitext_loop.simps) auto
    next
      case dot: True
      have ex: "(\<exists>j. i \<le> j \<and> j < d \<and> p ! j \<noteq> CHR ''.'') =
                (\<exists>j. Suc i \<le> j \<and> j < d \<and> p ! j \<noteq> CHR ''.'')"
        using dot by (metis Suc_leI Suc_leD le_neq_implies_less)
      have "splitext_loop p i d = splitext_loop p (Suc i) d"
        using True t dot by (subst splitext_loop.simps) simp
      also have "\<dots> = (if \<exists>j. Suc i \<le> j \<and> j < d \<and> p ! j \<noteq> CHR ''.''
                       then (take d p, drop d p) else (p, []))"
        using "1.IH" [OF True] t dot "1.prems" by simp
      finally show ?thesis
        using ex by simp
    qed
  qed
qed

lemma splitext_suffix:
  assumes "CHR ''.'' \<notin> set e" and "CHR ''/'' \<notin> set e"
  shows "splitext (q @ CHR ''.'' # e) =
           (if \<exists>j. nat (rfind q CHR ''/'' + 1) \<le> j \<and> j < length q \<and> q ! j \<noteq> CHR ''.''
            then (q, CHR ''.'' # e) else (q @ CHR ''.'' # e, []))"
proof -
  let ?p = "q @ CHR ''.'' # e"
  have dot: "rfind ?p CHR ''.'' = int (length q)"
    using assms(1) by (rule rfind_last_occurrence)
  have sep: "rfind ?p CHR ''/'' = rfind q CHR ''/''"
    using assms(2) by (intro rfind_append_notin) simp
  have lt: "rfind q CHR ''/'' < int (length q)"
    by (rule rfind_less_length)
  have nth: "?p ! j = q ! j" if "j < length q" for j
    using that by (simp add: nth_append)
  have ex: "(\<exists>j. nat (rfind q CHR ''/'' + 1) \<le> j \<and> j < length q \<and> ?p ! j \<noteq> CHR ''.'') =
            (\<exists>j. nat (rfind q CHR ''/'' + 1) \<le> j \<and> j < length q \<and> q ! j \<noteq> CHR ''.'')"
    using nth by metis
  have "splitext ?p = splitext_loop ?p (nat (rfind q CHR ''/'' + 1)) (length q)"
    using lt by (simp add: splitext_def dot sep Let_def)
  also have "\<dots> =
      (if \<exists>j. nat (rfind q CHR ''/'' + 1) \<le> j \<and> j < length q \<and> ?p ! j \<noteq> CHR ''.''
       then (take (length q) ?p, drop (length q) ?p) else (?p, []))"
    by (rule splitext_loop_eq) simp
  also have "\<dots> =
      (if \<exists>j. nat (rfind q CHR ''/'' + 1) \<le> j \<and> j < length q \<and> q ! j \<noteq> CHR ''.''
       then (q, CHR ''.'' # e) else (?p, []))"
    using ex by auto
  finally show ?thesis .
qed

lemma splitext_after_name_char:
  assumes "CHR ''.'' \<notin> set e" and "CHR ''/'' \<notin> set e"
    and "x \<noteq> CHR ''.''" and "x \<noteq> CHR ''/''"
  shows "splitext (xs @ x # CHR ''.'' # e) = (xs @ [x], CHR ''.'' # e)"
proof -
  have "rfind (xs @ [x]) CHR ''/'' = rfind xs CHR ''/''"
    using assms(4) by (intro rfind_append_notin) simp
  then have "nat (rfind (xs @ [x]) CHR ''/'' + 1) \<le> length xs"
    using rfind_less_length [of xs "CHR ''/''"] by simp
  then have "\<exists>j. nat (rfind (xs @ [x]) CHR ''/'' + 1) \<le> j \<and> j < length (xs @ [x]) \<and>
                 (xs @ [x]) ! j \<noteq> CHR ''.''"
    using assms(3) by (intro exI [of _ "length xs"]) simp
  then show ?thesis
    using splitext_suffix [OF assms(1,2), of "xs @ [x]"] by simp
qed

subsection \<open>The registry of \<^verbatim>\<open>mimetypes\<close>\<close>

text \<open>
  An instance of \<^verbatim>\<open>mimetypes.MimeTypes\<close>: the two dictionaries \<^verbatim>\<open>types_map\<close> and
  \<^verbatim>\<open>types_map_inv\<close>, each a pair indexed by \<^verbatim>\<open>strict\<close>. The other two dictionaries of
  an instance, \<^verbatim>\<open>suffix_map\<close> and \<^verbatim>\<open>encodings_map\<close>, are copies of the module's defaults
  that nothing in the library or in the program changes; they are the constants below.
\<close>

record mime_db =
  types_map :: "bool \<Rightarrow> string \<rightharpoonup> string"
  types_map_inv :: "bool \<Rightarrow> string \<rightharpoonup> string list"

definition suffix_map :: "(string \<times> string) list" where
  "suffix_map =
     [(''.svgz'', ''.svg.gz''), (''.tgz'', ''.tar.gz''), (''.taz'', ''.tar.gz''),
      (''.tz'', ''.tar.gz''), (''.tbz2'', ''.tar.bz2''), (''.txz'', ''.tar.xz'')]"

definition encodings_map :: "(string \<times> string) list" where
  "encodings_map =
     [(''.gz'', ''gzip''), (''.Z'', ''compress''), (''.bz2'', ''bzip2''), (''.xz'', ''xz''),
      (''.br'', ''br'')]"

text \<open>
  \<^verbatim>\<open>MimeTypes.add_type(self, type, ext, strict=True)\<close>:
  \<^verbatim>\<open>
    self.types_map[strict][ext] = type
    exts = self.types_map_inv[strict].setdefault(type, [])
    if ext not in exts:
        exts.append(ext)
  \<close>
\<close>

definition MimeTypes_add_type :: "mime_db \<Rightarrow> string \<Rightarrow> string \<Rightarrow> bool \<Rightarrow> mime_db" where
  "MimeTypes_add_type self type ext strict =
     (let exts = (case types_map_inv self strict type of None \<Rightarrow> [] | Some l \<Rightarrow> l)
      in self\<lparr>types_map := (types_map self)(strict := (types_map self strict)(ext \<mapsto> type)),
              types_map_inv := (types_map_inv self)
                (strict := (types_map_inv self strict)
                   (type \<mapsto> (if ext \<notin> set exts then exts @ [ext] else exts)))\<rparr>)"

text \<open>
  The module-level \<^verbatim>\<open>mimetypes.add_type(type, ext, strict=True)\<close>:
  \<^verbatim>\<open>
    if _db is None:
        init()
    return _db.add_type(type, ext, strict)
  \<close>
  The state is the module's global \<^verbatim>\<open>_db\<close>. \<open>init_db\<close> is the registry that
  \<^verbatim>\<open>init()\<close> builds on the platform at hand, from the library's default table and the
  platform's own (its \<^verbatim>\<open>mime.types\<close> files, or the Windows registry).
\<close>

definition mimetypes_add_type ::
  "mime_db \<Rightarrow> string \<Rightarrow> string \<Rightarrow> mime_db option \<Rightarrow> mime_db option" where
  "mimetypes_add_type init_db type ext db =
     (let db' = (case db of None \<Rightarrow> init_db | Some d \<Rightarrow> d)
      in Some (MimeTypes_add_type db' type ext True))"

text \<open>
  The two statements of the module (serve.py, lines 9 and 10), run when it is loaded:
  \<^verbatim>\<open>
    mimetypes.add_type("application/javascript", ".js")
    mimetypes.add_type("text/css", ".css")
  \<close>
\<close>

definition register_mime_types :: "mime_db \<Rightarrow> mime_db option \<Rightarrow> mime_db option" where
  "register_mime_types init_db db =
     (let db1 = mimetypes_add_type init_db ''application/javascript'' ''.js'' db
      in mimetypes_add_type init_db ''text/css'' ''.css'' db1)"

subsection \<open>Guessing the type\<close>

text \<open>
  The scheme that \<^verbatim>\<open>urllib.parse.urlsplit\<close> finds in a string:
  \<^verbatim>\<open>
    url = url.lstrip(_WHATWG_C0_CONTROL_OR_SPACE)
    for b in _UNSAFE_URL_BYTES_TO_REMOVE:
        url = url.replace(b, "")
    i = url.find(':')
    if i > 0 and url[0].isascii() and url[0].isalpha():
        for c in url[:i]:
            if c not in scheme_chars:
                break
        else:
            scheme, url = url[:i].lower(), url[i+1:]
  \<close>
  The characters stripped are those up to the space (code 32); the ones removed are tab,
  line feed and carriage return.
\<close>

definition scheme_chars :: string where
  "scheme_chars =
     ''abcdefghijklmnopqrstuvwxyz'' @ ''ABCDEFGHIJKLMNOPQRSTUVWXYZ'' @ ''0123456789'' @ ''+-.''"

definition ascii_alpha :: "char \<Rightarrow> bool" where
  "ascii_alpha c =
     (c \<in> set (''abcdefghijklmnopqrstuvwxyz'' @ ''ABCDEFGHIJKLMNOPQRSTUVWXYZ''))"

definition urlsplit_scheme :: "string \<Rightarrow> string" where
  "urlsplit_scheme url0 =
     (let url1 = dropWhile (\<lambda>c. (of_char c :: nat) \<le> 32) url0;
          url = filter (\<lambda>c. (of_char c :: nat) \<notin> {9, 10, 13}) url1;
          i = find_char url CHR '':''
      in if i > 0 \<and> ascii_alpha (hd url) \<and> (\<forall>c \<in> set (take (nat i) url). c \<in> set scheme_chars)
         then lower (take (nat i) url)
         else [])"

text \<open>
  The branch of \<^verbatim>\<open>MimeTypes.guess_type\<close> for a \<^verbatim>\<open>data:\<close> URL:
  \<^verbatim>\<open>
    comma = url.find(',')
    if comma < 0:
        return None, None
    semi = url.find(';', 0, comma)
    if semi >= 0:
        type = url[:semi]
    else:
        type = url[:comma]
    if '=' in type or '/' not in type:
        type = 'text/plain'
    return type, None
  \<close>
\<close>

definition guess_type_data :: "string \<Rightarrow> string option \<times> string option" where
  "guess_type_data url =
     (let comma = find_char url CHR '',''
      in if comma < 0 then (None, None)
         else
           (let semi = find_char (take (nat comma) url) CHR '';'';
                type = (if semi \<ge> 0 then take (nat semi) url else take (nat comma) url);
                type = (if CHR ''='' \<in> set type \<or> CHR ''/'' \<notin> set type
                        then ''text/plain'' else type)
            in (Some type, None)))"

text \<open>
  The loop of \<^verbatim>\<open>MimeTypes.guess_type\<close> that replaces a suffix such as \<^verbatim>\<open>.tgz\<close>:
  \<^verbatim>\<open>
    while (ext_lower := ext.lower()) in self.suffix_map:
        base, ext = posixpath.splitext(base + self.suffix_map[ext_lower])
  \<close>
\<close>

function suffix_loop :: "string \<Rightarrow> string \<Rightarrow> string \<times> string" where
  "suffix_loop base ext =
     (case map_of suffix_map (lower ext) of
        None \<Rightarrow> (base, ext)
      | Some s \<Rightarrow> (case splitext (base @ s) of (base', ext') \<Rightarrow> suffix_loop base' ext'))"
  by pat_completeness auto

lemma suffix_map_value_splitext:
  assumes "map_of suffix_map k = Some s"
  shows "map_of suffix_map (lower (snd (splitext (base @ s)))) = None"
proof -
  from assms have "s \<in> {''.svg.gz'', ''.tar.gz'', ''.tar.bz2'', ''.tar.xz''}"
    by (auto simp: suffix_map_def split: if_splits)
  then consider "s = ''.svg.gz''" | "s = ''.tar.gz''" | "s = ''.tar.bz2''" | "s = ''.tar.xz''"
    by blast
  then show ?thesis
  proof cases
    case 1
    have "splitext ((base @ ''.sv'') @ CHR ''g'' # CHR ''.'' # ''gz'') =
            ((base @ ''.sv'') @ ''g'', CHR ''.'' # ''gz'')"
      by (rule splitext_after_name_char) simp_all
    with 1 show ?thesis
      by (simp add: suffix_map_def lower_def lower_char_def)
  next
    case 2
    have "splitext ((base @ ''.ta'') @ CHR ''r'' # CHR ''.'' # ''gz'') =
            ((base @ ''.ta'') @ ''r'', CHR ''.'' # ''gz'')"
      by (rule splitext_after_name_char) simp_all
    with 2 show ?thesis
      by (simp add: suffix_map_def lower_def lower_char_def)
  next
    case 3
    have "splitext ((base @ ''.ta'') @ CHR ''r'' # CHR ''.'' # ''bz2'') =
            ((base @ ''.ta'') @ ''r'', CHR ''.'' # ''bz2'')"
      by (rule splitext_after_name_char) simp_all
    with 3 show ?thesis
      by (simp add: suffix_map_def lower_def lower_char_def)
  next
    case 4
    have "splitext ((base @ ''.ta'') @ CHR ''r'' # CHR ''.'' # ''xz'') =
            ((base @ ''.ta'') @ ''r'', CHR ''.'' # ''xz'')"
      by (rule splitext_after_name_char) simp_all
    with 4 show ?thesis
      by (simp add: suffix_map_def lower_def lower_char_def)
  qed
qed

termination suffix_loop
proof (relation "measure (\<lambda>(base, ext). case map_of suffix_map (lower ext) of None \<Rightarrow> 0 | Some s \<Rightarrow> Suc 0)")
  show "wf (measure (\<lambda>(base, ext). case map_of suffix_map (lower ext) of None \<Rightarrow> 0 | Some s \<Rightarrow> Suc 0))"
    by simp
next
  fix base ext :: string and s x y
  assume a: "map_of suffix_map (lower ext) = Some s" and b: "(x, y) = splitext (base @ s)"
  have "map_of suffix_map (lower (snd (splitext (base @ s)))) = None"
    using a by (rule suffix_map_value_splitext)
  with b have "map_of suffix_map (lower y) = None"
    by (metis snd_conv)
  with a show "((x, y), base, ext) \<in>
      measure (\<lambda>(base, ext). case map_of suffix_map (lower ext) of None \<Rightarrow> 0 | Some s \<Rightarrow> Suc 0)"
    by simp
qed

declare suffix_loop.simps [simp del]

text \<open>
  \<^verbatim>\<open>MimeTypes.guess_type(self, url, strict=True)\<close>. The library first parses \<open>url\<close>:
  \<^verbatim>\<open>
    p = urllib.parse.urlparse(url)
    if p.scheme and len(p.scheme) > 1:
        scheme = p.scheme
        url = p.path
    else:
        scheme = None
        url = os.path.splitdrive(url)[1]
    if scheme == 'data':
        ...
  \<close>
  and goes on with
  \<^verbatim>\<open>
    base, ext = posixpath.splitext(url)
    while ...                    # suffix_loop
    # encodings_map is case sensitive
    if ext in self.encodings_map:
        encoding = self.encodings_map[ext]
        base, ext = posixpath.splitext(base)
    else:
        encoding = None
    ext = ext.lower()
    types_map = self.types_map[True]
    if ext in types_map:
        return types_map[ext], encoding
    elif strict:
        return None, encoding
    types_map = self.types_map[False]
    if ext in types_map:
        return types_map[ext], encoding
    else:
        return None, encoding
  \<close>
  The path component of a URL that has a scheme, \<^verbatim>\<open>p.path\<close>, is the parameter
  \<open>urlparse_path\<close>. On a POSIX system \<^verbatim>\<open>os.path.splitdrive(url)[1]\<close> is \<open>url\<close>.
\<close>

definition MimeTypes_guess_type ::
  "(string \<Rightarrow> string) \<Rightarrow> mime_db \<Rightarrow> string \<Rightarrow> bool \<Rightarrow> string option \<times> string option" where
  "MimeTypes_guess_type urlparse_path self url0 strict =
     (let p_scheme = urlsplit_scheme url0;
          scheme = (if p_scheme \<noteq> [] \<and> length p_scheme > 1 then Some p_scheme else None);
          url = (if p_scheme \<noteq> [] \<and> length p_scheme > 1 then urlparse_path url0 else url0)
      in if scheme = Some ''data'' then guess_type_data url
         else
           (let (base, ext) = splitext url;
                (base, ext) = suffix_loop base ext;
                (encoding, base, ext) =
                   (case map_of encodings_map ext of
                      Some enc \<Rightarrow> (Some enc, splitext base)
                    | None \<Rightarrow> (None, base, ext));
                ext = lower ext
            in (case types_map self True ext of
                  Some t \<Rightarrow> (Some t, encoding)
                | None \<Rightarrow>
                    if strict then (None, encoding)
                    else (case types_map self False ext of
                            Some t \<Rightarrow> (Some t, encoding)
                          | None \<Rightarrow> (None, encoding)))))"

text \<open>
  The module-level \<^verbatim>\<open>mimetypes.guess_type(url, strict=True)\<close>:
  \<^verbatim>\<open>
    if _db is None:
        init()
    return _db.guess_type(url, strict)
  \<close>
\<close>

definition mimetypes_guess_type ::
  "(string \<Rightarrow> string) \<Rightarrow> mime_db \<Rightarrow> mime_db option \<Rightarrow> string \<Rightarrow> string option \<times> string option" where
  "mimetypes_guess_type urlparse_path init_db db url =
     (let db' = (case db of None \<Rightarrow> init_db | Some d \<Rightarrow> d)
      in MimeTypes_guess_type urlparse_path db' url True)"

text \<open>
  \<^verbatim>\<open>http.server.SimpleHTTPRequestHandler\<close>, the handler class the program passes to the
  server: its table \<^verbatim>\<open>extensions_map\<close> and its method \<^verbatim>\<open>guess_type(self, path)\<close>, which
  gives the \<^verbatim>\<open>Content-type\<close> of a response:
  \<^verbatim>\<open>
    base, ext = posixpath.splitext(path)
    if ext in self.extensions_map:
        return self.extensions_map[ext]
    ext = ext.lower()
    if ext in self.extensions_map:
        return self.extensions_map[ext]
    guess, _ = mimetypes.guess_type(path)
    if guess:
        return guess
    return 'application/octet-stream'
  \<close>
\<close>

definition extensions_map :: "(string \<times> string) list" where
  "extensions_map =
     [(''.gz'', ''application/gzip''), (''.Z'', ''application/octet-stream''),
      (''.bz2'', ''application/x-bzip2''), (''.xz'', ''application/x-xz'')]"

definition guess_type ::
  "(string \<Rightarrow> string) \<Rightarrow> mime_db \<Rightarrow> mime_db option \<Rightarrow> string \<Rightarrow> string" where
  "guess_type urlparse_path init_db db path =
     (let (base, ext) = splitext path
      in (case map_of extensions_map ext of
            Some t \<Rightarrow> t
          | None \<Rightarrow>
              (case map_of extensions_map (lower ext) of
                 Some t \<Rightarrow> t
               | None \<Rightarrow>
                   (let (guess, _) = mimetypes_guess_type urlparse_path init_db db path
                    in (case guess of
                          Some g \<Rightarrow> if g \<noteq> [] then g else ''application/octet-stream''
                        | None \<Rightarrow> ''application/octet-stream'')))))"

section \<open>The command line\<close>

text \<open>
  \<^verbatim>\<open>parse_args\<close> (serve.py, lines 22 to 30) builds an \<^verbatim>\<open>argparse.ArgumentParser\<close> and
  calls its \<^verbatim>\<open>parse_args()\<close> on \<^verbatim>\<open>sys.argv[1:]\<close>:
  \<^verbatim>\<open>
    parser = argparse.ArgumentParser(description="Static file server")
    parser.add_argument(
        "--port",
        type=int,
        default=DEFAULT_PORT,
        help=f"Port to serve on (default: {DEFAULT_PORT})",
    )
    return parser.parse_args()
  \<close>
  The parser has two actions: the help action that \<^verbatim>\<open>ArgumentParser\<close> adds by itself
  (\<^verbatim>\<open>add_help=True\<close> is the default) under the option strings \<^verbatim>\<open>-h\<close> and \<^verbatim>\<open>--help\<close>,
  taking no argument, and the store action of \<^verbatim>\<open>--port\<close>, taking one argument that is
  converted by \<^verbatim>\<open>int\<close>. What follows is \<^verbatim>\<open>argparse\<close> for this parser: prefix character
  \<^verbatim>\<open>-\<close>, abbreviations allowed, no positional argument, no option that looks like a
  negative number.
\<close>

definition DEFAULT_PORT :: int where
  "DEFAULT_PORT = 8000"

datatype action = Help | Port

text \<open>The dictionary \<^verbatim>\<open>_option_string_actions\<close>, in the order of insertion.\<close>

definition option_string_actions :: "(string \<times> action) list" where
  "option_string_actions = [(''-h'', Help), (''--help'', Help), (''--port'', Port)]"

text \<open>
  The errors that end in \<^verbatim>\<open>parser.error\<close>, which writes the usage and the message to
  standard error and exits with status 2.
\<close>

datatype arg_error =
    Ambiguous_option string
  | Expected_one_argument
  | Ignored_explicit_argument string
  | Invalid_int_value string
  | Unrecognized_arguments "string list"

text \<open>
  What \<^verbatim>\<open>parse_args\<close> comes to: the namespace, of which \<open>port\<close> is the only attribute;
  or \<^verbatim>\<open>SystemExit\<close> with status 0 after the help has been printed; or \<^verbatim>\<open>SystemExit\<close>
  with status 2 after an error.
\<close>

datatype parsed = Namespace (port: int) | Exit_help | Exit_error arg_error

fun exit_status :: "parsed \<Rightarrow> nat option" where
  "exit_status (Namespace p) = None"
| "exit_status Exit_help = Some 0"
| "exit_status (Exit_error e) = Some 2"

text \<open>
  \<^verbatim>\<open>str.startswith\<close>, and \<^verbatim>\<open>str.partition('=')\<close>: the text before the first \<^verbatim>\<open>=\<close>, the
  separator found (empty when there is none) and the text after it.
\<close>

definition startswith :: "string \<Rightarrow> string \<Rightarrow> bool" where
  "startswith s pre = (take (length pre) s = pre)"

definition partition_eq :: "string \<Rightarrow> string \<times> string \<times> string" where
  "partition_eq s =
     (if CHR ''='' \<in> set s
      then (takeWhile (\<lambda>c. c \<noteq> CHR ''='') s, ''='', tl (dropWhile (\<lambda>c. c \<noteq> CHR ''='') s))
      else (s, [], []))"

text \<open>
  The parser's \<^verbatim>\<open>_negative_number_matcher\<close>, the regular expression
  \<^verbatim>\<open>^-\d+$|^-\d*\.\d+$\<close> applied with \<^verbatim>\<open>match\<close>. \<^verbatim>\<open>$\<close> also matches before a final line
  feed. The digits are the ASCII digits.
\<close>

definition is_digit :: "char \<Rightarrow> bool" where
  "is_digit c = (c \<in> set ''0123456789'')"

definition full_negative_number :: "string \<Rightarrow> bool" where
  "full_negative_number s =
     (case s of
        [] \<Rightarrow> False
      | c # t \<Rightarrow>
          c = CHR ''-'' \<and>
          ((t \<noteq> [] \<and> list_all is_digit t) \<or>
           (CHR ''.'' \<in> set t \<and>
            list_all is_digit (takeWhile (\<lambda>c. c \<noteq> CHR ''.'') t) \<and>
            tl (dropWhile (\<lambda>c. c \<noteq> CHR ''.'') t) \<noteq> [] \<and>
            list_all is_digit (tl (dropWhile (\<lambda>c. c \<noteq> CHR ''.'') t)))))"

definition negative_number_matcher :: "string \<Rightarrow> bool" where
  "negative_number_matcher s =
     (full_negative_number s \<or>
      (s \<noteq> [] \<and> last s = CHR 0x0A \<and> full_negative_number (butlast s)))"

text \<open>
  An option tuple: the action (\<^verbatim>\<open>None\<close> for an option the parser does not know), the
  option string, the separator and the explicit argument.
\<close>

type_synonym option_tuple = "action option \<times> string \<times> string option \<times> string option"

text \<open>
  \<^verbatim>\<open>ArgumentParser._get_option_tuples(option_string)\<close>, called on strings of two
  characters or more that start with \<^verbatim>\<open>-\<close>:
  \<^verbatim>\<open>
    chars = self.prefix_chars
    if option_string[0] in chars and option_string[1] in chars:
        if self.allow_abbrev:
            option_prefix, sep, explicit_arg = option_string.partition('=')
            if not sep:
                sep = explicit_arg = None
            for option_string in self._option_string_actions:
                if option_string.startswith(option_prefix):
                    action = self._option_string_actions[option_string]
                    tup = action, option_string, sep, explicit_arg
                    result.append(tup)
    elif option_string[0] in chars and option_string[1] not in chars:
        option_prefix = option_string
        short_option_prefix = option_string[:2]
        short_explicit_arg = option_string[2:]
        for option_string in self._option_string_actions:
            if option_string == short_option_prefix:
                action = self._option_string_actions[option_string]
                tup = action, option_string, '', short_explicit_arg
                result.append(tup)
            elif option_string.startswith(option_prefix):
                action = self._option_string_actions[option_string]
                tup = action, option_string, None, None
                result.append(tup)
  \<close>
\<close>

definition get_option_tuples :: "string \<Rightarrow> option_tuple list" where
  "get_option_tuples option_string =
     (if hd (tl option_string) = CHR ''-''
      then
        (let (option_prefix, sep, explicit_arg) = partition_eq option_string;
             sep' = (if sep = [] then None else Some sep);
             explicit_arg' = (if sep = [] then None else Some explicit_arg)
         in concat (map (\<lambda>(os, a).
                      if startswith os option_prefix then [(Some a, os, sep', explicit_arg')]
                      else [])
                    option_string_actions))
      else
        (let option_prefix = option_string;
             short_option_prefix = take 2 option_string;
             short_explicit_arg = drop 2 option_string
         in concat (map (\<lambda>(os, a).
                      if os = short_option_prefix
                      then [(Some a, os, Some [], Some short_explicit_arg)]
                      else if startswith os option_prefix
                      then [(Some a, os, None, None)]
                      else [])
                    option_string_actions)))"

text \<open>
  \<^verbatim>\<open>ArgumentParser._parse_optional(arg_string)\<close>: \<^verbatim>\<open>None\<close> for a string that is an
  argument, an option tuple for one that is an option, or the error of an ambiguous
  abbreviation:
  \<^verbatim>\<open>
    if not arg_string:
        return None
    if not arg_string[0] in self.prefix_chars:
        return None
    if arg_string in self._option_string_actions:
        action = self._option_string_actions[arg_string]
        return action, arg_string, None, None
    if len(arg_string) == 1:
        return None
    option_string, sep, explicit_arg = arg_string.partition('=')
    if sep and option_string in self._option_string_actions:
        action = self._option_string_actions[option_string]
        return action, option_string, sep, explicit_arg
    option_tuples = self._get_option_tuples(arg_string)
    if len(option_tuples) > 1:
        ...
        self.error(msg % args)
    elif len(option_tuples) == 1:
        option_tuple, = option_tuples
        return option_tuple
    if self._negative_number_matcher.match(arg_string):
        if not self._has_negative_number_optionals:
            return None
    if ' ' in arg_string:
        return None
    return None, arg_string, None, None
  \<close>
\<close>

definition parse_optional :: "string \<Rightarrow> arg_error + option_tuple option" where
  "parse_optional arg_string =
     (if arg_string = [] then Inr None
      else if hd arg_string \<noteq> CHR ''-'' then Inr None
      else
        (case map_of option_string_actions arg_string of
           Some a \<Rightarrow> Inr (Some (Some a, arg_string, None, None))
         | None \<Rightarrow>
             if length arg_string = 1 then Inr None
             else
               (let (option_string, sep, explicit_arg) = partition_eq arg_string
                in (case (if sep \<noteq> [] then map_of option_string_actions option_string
                          else None) of
                      Some a \<Rightarrow> Inr (Some (Some a, option_string, Some sep, Some explicit_arg))
                    | None \<Rightarrow>
                        (let option_tuples = get_option_tuples arg_string
                         in if length option_tuples > 1 then Inl (Ambiguous_option arg_string)
                            else if length option_tuples = 1 then Inr (Some (hd option_tuples))
                            else if negative_number_matcher arg_string then Inr None
                            else if CHR '' '' \<in> set arg_string then Inr None
                            else Inr (Some (None, arg_string, None, None)))))))"

text \<open>
  The first pass of \<^verbatim>\<open>ArgumentParser._parse_known_args\<close> gives every argument string
  its mark: \<open>Opt\<close> with its option tuple for an option, \<open>Arg\<close> for an argument, \<open>Dash\<close> for
  \<^verbatim>\<open>--\<close>, after which every string is an argument:
  \<^verbatim>\<open>
    for i, arg_string in enumerate(arg_strings_iter):
        # all args after -- are non-options
        if arg_string == '--':
            arg_string_pattern_parts.append('-')
            for arg_string in arg_strings_iter:
                arg_string_pattern_parts.append('A')
        else:
            option_tuple = self._parse_optional(arg_string)
            if option_tuple is None:
                pattern = 'A'
            else:
                option_string_indices[i] = option_tuple
                pattern = 'O'
            arg_string_pattern_parts.append(pattern)
  \<close>
\<close>

datatype mark = Opt option_tuple | Arg | Dash

fun classify :: "string list \<Rightarrow> arg_error + mark list" where
  "classify [] = Inr []"
| "classify (arg_string # arg_strings) =
     (if arg_string = ''--'' then Inr (Dash # map (\<lambda>s. Arg) arg_strings)
      else
        (case parse_optional arg_string of
           Inl e \<Rightarrow> Inl e
         | Inr option_tuple \<Rightarrow>
             (case classify arg_strings of
                Inl e \<Rightarrow> Inl e
              | Inr marks \<Rightarrow>
                  Inr ((case option_tuple of None \<Rightarrow> Arg | Some t \<Rightarrow> Opt t) # marks))))"

text \<open>
  The loop of \<^verbatim>\<open>consume_optional\<close> for the help action given with an explicit argument
  after the single-dash option string \<^verbatim>\<open>-h\<close>, as in \<^verbatim>\<open>-hx\<close>: it takes further
  single-dash options out of the explicit argument.
  \<^verbatim>\<open>
    arg_count = match_argument(action, 'A')          # 0 for the help action
    if (arg_count == 0
        and option_string[1] not in chars
        and explicit_arg != ''):
        if sep or explicit_arg[0] in chars:
            msg = _('ignored explicit argument %r')
            raise ArgumentError(action, msg % explicit_arg)
        action_tuples.append((action, [], option_string))
        char = option_string[0]
        option_string = char + explicit_arg[0]
        optionals_map = self._option_string_actions
        if option_string in optionals_map:
            action = optionals_map[option_string]
            explicit_arg = explicit_arg[1:]
            if not explicit_arg:
                sep = explicit_arg = None
            elif explicit_arg[0] == '=':
                sep = '='
                explicit_arg = explicit_arg[1:]
            else:
                sep = ''
        else:
            extras.append(char + explicit_arg)
            stop = start_index + 1
            break
    elif arg_count == 1:
        ...
    else:
        msg = _('ignored explicit argument %r')
        raise ArgumentError(action, msg % explicit_arg)
  \<close>
  The only single-dash option string is \<^verbatim>\<open>-h\<close>, so every action met in the loop is the
  help action. The result is the error raised, or \<open>None\<close> when the loop ends without one:
  the first action then taken is the help action, which exits.
\<close>

fun help_explicit :: "bool \<Rightarrow> string \<Rightarrow> arg_error option" where
  "help_explicit sep [] = Some (Ignored_explicit_argument [])"
| "help_explicit sep (c # cs) =
     (if sep \<or> c = CHR ''-'' then Some (Ignored_explicit_argument (c # cs))
      else if map_of option_string_actions [CHR ''-'', c] \<noteq> None
      then (case cs of
              [] \<Rightarrow> None
            | d # ds \<Rightarrow> if d = CHR ''='' then help_explicit True ds else help_explicit False cs)
      else None)"

text \<open>
  The second pass of \<^verbatim>\<open>_parse_known_args\<close>, from left to right over the strings and
  their marks, followed by the check of \<^verbatim>\<open>ArgumentParser.parse_args\<close>. With no
  positional argument declared, a string that no option consumes goes to \<open>extras\<close>;
  so does an option the parser does not know. An option is handled by
  \<^verbatim>\<open>consume_optional\<close>:
  \<^item> the help action prints the help and exits with status 0, unless it was given an
    explicit argument it cannot use;
  \<^item> \<^verbatim>\<open>--port\<close> takes its explicit argument (\<^verbatim>\<open>--port=N\<close>) or else the next string, which
    must be marked \<open>Arg\<close> (\<^verbatim>\<open>expected one argument\<close> otherwise); \<^verbatim>\<open>_get_value\<close> applies
    \<^verbatim>\<open>int\<close> to it and turns a \<^verbatim>\<open>ValueError\<close> into \<^verbatim>\<open>invalid int value\<close>; the value is
    stored as \<open>port\<close>.
  At the end, \<^verbatim>\<open>parse_args\<close> reports the extras, if any, as
  \<^verbatim>\<open>unrecognized arguments\<close>.
  \<open>cur\<close> is the value of \<open>port\<close> in the namespace so far.
  \<open>py_int\<close> is the built-in \<^verbatim>\<open>int\<close> on strings: the value, or \<open>None\<close> for
  \<^verbatim>\<open>ValueError\<close>.
\<close>

fun consume :: "(string \<Rightarrow> int option) \<Rightarrow> (string \<times> mark) list \<Rightarrow> int \<Rightarrow> string list \<Rightarrow> parsed" where
  "consume py_int [] cur extras =
     (if extras = [] then Namespace cur else Exit_error (Unrecognized_arguments extras))"
| "consume py_int ((s, Arg) # rest) cur extras = consume py_int rest cur (extras @ [s])"
| "consume py_int ((s, Dash) # rest) cur extras = consume py_int rest cur (extras @ [s])"
| "consume py_int ((s, Opt (None, option_string, sep, explicit_arg)) # rest) cur extras =
     consume py_int rest cur (extras @ [s])"
| "consume py_int ((s, Opt (Some Help, option_string, sep, None)) # rest) cur extras = Exit_help"
| "consume py_int ((s, Opt (Some Help, option_string, sep, Some explicit_arg)) # rest) cur extras =
     (if hd (tl option_string) \<noteq> CHR ''-'' \<and> explicit_arg \<noteq> []
      then (case help_explicit (sep \<noteq> None \<and> sep \<noteq> Some []) explicit_arg of
              Some e \<Rightarrow> Exit_error e
            | None \<Rightarrow> Exit_help)
      else Exit_error (Ignored_explicit_argument explicit_arg))"
| "consume py_int ((s, Opt (Some Port, option_string, sep, Some explicit_arg)) # rest) cur extras =
     (case py_int explicit_arg of
        None \<Rightarrow> Exit_error (Invalid_int_value explicit_arg)
      | Some v \<Rightarrow> consume py_int rest v extras)"
| "consume py_int ((s, Opt (Some Port, option_string, sep, None)) # []) cur extras =
     Exit_error Expected_one_argument"
| "consume py_int ((s, Opt (Some Port, option_string, sep, None)) # (s', Arg) # rest) cur extras =
     (case py_int s' of
        None \<Rightarrow> Exit_error (Invalid_int_value s')
      | Some v \<Rightarrow> consume py_int rest v extras)"
| "consume py_int ((s, Opt (Some Port, option_string, sep, None)) # (s', Dash) # rest) cur extras =
     Exit_error Expected_one_argument"
| "consume py_int ((s, Opt (Some Port, option_string, sep, None)) # (s', Opt t) # rest) cur extras =
     Exit_error Expected_one_argument"

text \<open>
  \<^verbatim>\<open>parse_args\<close>: \<^verbatim>\<open>parse_known_args\<close> first puts the default of \<^verbatim>\<open>--port\<close>,
  \<open>DEFAULT_PORT\<close>, into the namespace, then the two passes run. \<open>argv\<close> is
  \<^verbatim>\<open>sys.argv[1:]\<close>.
\<close>

definition parse_args :: "(string \<Rightarrow> int option) \<Rightarrow> string list \<Rightarrow> parsed" where
  "parse_args py_int argv =
     (case classify argv of
        Inl e \<Rightarrow> Exit_error e
      | Inr marks \<Rightarrow> consume py_int (zip argv marks) DEFAULT_PORT [])"

section \<open>Starting the server\<close>

subsection \<open>Sockets and the platform\<close>

text \<open>
  The process with its socket: the state of before, and the calls made so far on the
  listening socket, in order.
\<close>

datatype sockopt = SO_REUSEADDR | SO_REUSEPORT

datatype call =
    Socket
  | Setsockopt sockopt int
  | Bind "string \<times> int"
  | Getsockname
  | Listen nat
  | Close

record process = world +
  calls :: "call list"

text \<open>
  What the program cannot decide is the platform's: whether the \<^verbatim>\<open>socket\<close> module has
  the two options, and what \<^verbatim>\<open>bind\<close> and \<^verbatim>\<open>listen\<close> do. \<open>bind_error\<close> gives the exception
  that \<^verbatim>\<open>socket.bind\<close> raises, if any, for a socket on which the given options are set
  and for the given address; \<open>listen_error\<close> likewise for \<^verbatim>\<open>socket.listen\<close>.
\<close>

record platform =
  has_SO_REUSEADDR :: bool
  has_SO_REUSEPORT :: bool
  bind_error :: "sockopt list \<Rightarrow> string \<times> int \<Rightarrow> exc option"
  listen_error :: "string \<times> int \<Rightarrow> exc option"

text \<open>The options set to a non-zero value by the calls so far.\<close>

fun sockopts :: "call list \<Rightarrow> sockopt list" where
  "sockopts [] = []"
| "sockopts (Setsockopt opt v # cs) = (if v \<noteq> 0 then opt # sockopts cs else sockopts cs)"
| "sockopts (c # cs) = sockopts cs"

subsection \<open>The server class\<close>

text \<open>
  \<^verbatim>\<open>ResilientTCPServer\<close> (serve.py, lines 12 and 13) sets one class attribute:
  \<^verbatim>\<open>
    class ResilientTCPServer(socketserver.ThreadingTCPServer):
        allow_reuse_address = True
  \<close>
  The other two are those of \<^verbatim>\<open>socketserver.TCPServer\<close>.
\<close>

definition allow_reuse_address :: bool where
  "allow_reuse_address = True"

definition allow_reuse_port :: bool where
  "allow_reuse_port = False"

definition request_queue_size :: nat where
  "request_queue_size = 5"

text \<open>
  \<^verbatim>\<open>socketserver.TCPServer.server_bind\<close>:
  \<^verbatim>\<open>
    if self.allow_reuse_address and hasattr(socket, "SO_REUSEADDR"):
        self.socket.setsockopt(socket.SOL_SOCKET, socket.SO_REUSEADDR, 1)
    if self.allow_reuse_port and hasattr(socket, "SO_REUSEPORT"):
        self.socket.setsockopt(socket.SOL_SOCKET, socket.SO_REUSEPORT, 1)
    self.socket.bind(self.server_address)
    self.server_address = self.socket.getsockname()
  \<close>
  The two attributes are arguments, so that the method can be compared with that of a
  server that leaves \<^verbatim>\<open>allow_reuse_address\<close> at the default of the library, \<^verbatim>\<open>False\<close>.
\<close>

definition server_bind ::
  "platform \<Rightarrow> bool \<Rightarrow> bool \<Rightarrow> string \<times> int \<Rightarrow> process \<Rightarrow> process outcome" where
  "server_bind os reuse_address reuse_port server_address w =
     (let w1 = (if reuse_address \<and> has_SO_REUSEADDR os
                then w\<lparr>calls := calls w @ [Setsockopt SO_REUSEADDR 1]\<rparr> else w);
          w2 = (if reuse_port \<and> has_SO_REUSEPORT os
                then w1\<lparr>calls := calls w1 @ [Setsockopt SO_REUSEPORT 1]\<rparr> else w1);
          w3 = w2\<lparr>calls := calls w2 @ [Bind server_address]\<rparr>
      in (case bind_error os (sockopts (calls w2)) server_address of
            Some e \<Rightarrow> Raised e w3
          | None \<Rightarrow> Returned (w3\<lparr>calls := calls w3 @ [Getsockname]\<rparr>)))"

text \<open>
  \<^verbatim>\<open>socketserver.TCPServer.server_activate\<close>:
  \<^verbatim>\<open>
    self.socket.listen(self.request_queue_size)
  \<close>
\<close>

definition server_activate :: "platform \<Rightarrow> string \<times> int \<Rightarrow> process \<Rightarrow> process outcome" where
  "server_activate os server_address w =
     (let w1 = w\<lparr>calls := calls w @ [Listen request_queue_size]\<rparr>
      in (case listen_error os server_address of
            Some e \<Rightarrow> Raised e w1
          | None \<Rightarrow> Returned w1))"

text \<open>
  \<^verbatim>\<open>socketserver.TCPServer.__init__\<close>, with \<^verbatim>\<open>bind_and_activate\<close> at its default
  \<^verbatim>\<open>True\<close>:
  \<^verbatim>\<open>
    BaseServer.__init__(self, server_address, RequestHandlerClass)
    self.socket = socket.socket(self.address_family,
                                self.socket_type)
    if bind_and_activate:
        try:
            self.server_bind()
            self.server_activate()
        except:
            self.server_close()
            raise
  \<close>
  \<^verbatim>\<open>server_close\<close> closes the socket.
\<close>

definition TCPServer_init ::
  "platform \<Rightarrow> bool \<Rightarrow> bool \<Rightarrow> string \<times> int \<Rightarrow> process \<Rightarrow> process outcome" where
  "TCPServer_init os reuse_address reuse_port server_address w =
     (let w1 = w\<lparr>calls := calls w @ [Socket]\<rparr>
      in (case server_bind os reuse_address reuse_port server_address w1 of
            Raised e w2 \<Rightarrow> Raised e (w2\<lparr>calls := calls w2 @ [Close]\<rparr>)
          | Returned w2 \<Rightarrow>
              (case server_activate os server_address w2 of
                 Raised e w3 \<Rightarrow> Raised e (w3\<lparr>calls := calls w3 @ [Close]\<rparr>)
               | Returned w3 \<Rightarrow> Returned w3)))"

text \<open>
  The constructor of \<^verbatim>\<open>ResilientTCPServer\<close> is the inherited one, run with the
  attributes of the class.
\<close>

definition ResilientTCPServer_init :: "platform \<Rightarrow> string \<times> int \<Rightarrow> process \<Rightarrow> process outcome" where
  "ResilientTCPServer_init os server_address w =
     TCPServer_init os allow_reuse_address allow_reuse_port server_address w"

subsection \<open>The main block\<close>

text \<open>\<^verbatim>\<open>str\<close> of an integer, as the f-string formats the port: its decimal digits.\<close>

fun str_nat :: "nat \<Rightarrow> string" where
  "str_nat n =
     (if n < 10 then [''0123456789'' ! n]
      else str_nat (n div 10) @ [''0123456789'' ! (n mod 10)])"

declare str_nat.simps [simp del]

definition str_int :: "int \<Rightarrow> string" where
  "str_int i = (if i < 0 then CHR ''-'' # str_nat (nat (- i)) else str_nat (nat i))"

text \<open>
  The integer that a string denotes as a decimal numeral, for stating what the printed
  port is. It reads the string from the left, one digit at a time, and is not defined
  from \<open>str_int\<close>. A numeral is a digit sequence that is not empty and has no leading
  zero, except the numeral \<^verbatim>\<open>0\<close> itself, or \<^verbatim>\<open>-\<close> and the numeral of a positive number;
  every other string denotes nothing.
\<close>

definition digit_value :: "char \<Rightarrow> nat" where
  "digit_value c = of_char c - of_char CHR ''0''"

fun digits_value :: "nat \<Rightarrow> string \<Rightarrow> nat option" where
  "digits_value acc [] = Some acc"
| "digits_value acc (c # cs) =
     (if is_digit c then digits_value (10 * acc + digit_value c) cs else None)"

definition nat_of_decimal :: "string \<Rightarrow> nat option" where
  "nat_of_decimal s =
     (if s = [] then None
      else if hd s = CHR ''0'' \<and> tl s \<noteq> [] then None
      else digits_value 0 s)"

definition int_of_decimal :: "string \<Rightarrow> int option" where
  "int_of_decimal s =
     (if s \<noteq> [] \<and> hd s = CHR ''-''
      then (case nat_of_decimal (tl s) of
              None \<Rightarrow> None
            | Some n \<Rightarrow> if n = 0 then None else Some (- int n))
      else map_option int (nat_of_decimal s))"

text \<open>
  The block under \<^verbatim>\<open>if __name__ == "__main__"\<close> (serve.py, lines 33 to 38):
  \<^verbatim>\<open>
    args = parse_args()
    handler = http.server.SimpleHTTPRequestHandler
    with ResilientTCPServer(("", args.port), handler) as httpd:
        print(f"Serving on http://localhost:{args.port}")
        httpd.serve_forever()
  \<close>
  It is followed up to the call of \<^verbatim>\<open>serve_forever\<close>. A run comes to one of three
  points: \<open>Serving w\<close>, the call of \<^verbatim>\<open>serve_forever\<close> in the state \<open>w\<close>;
  \<open>Parser_exit r w\<close>, the \<^verbatim>\<open>SystemExit\<close> of the argument parser (what the parser writes
  is not part of the state); \<open>Uncaught e w\<close>, the exception \<open>e\<close> leaving the module,
  which nothing in it catches.
\<close>

datatype run = Serving process | Parser_exit parsed process | Uncaught exc process

definition main :: "(string \<Rightarrow> int option) \<Rightarrow> platform \<Rightarrow> string list \<Rightarrow> process \<Rightarrow> run" where
  "main py_int os argv w =
     (case parse_args py_int argv of
        Namespace args_port \<Rightarrow>
          (case ResilientTCPServer_init os ([], args_port) w of
             Raised e w1 \<Rightarrow> Uncaught e w1
           | Returned w1 \<Rightarrow>
               Serving (w1\<lparr>stdout := stdout w1 @
                          [''Serving on http://localhost:'' @ str_int args_port]\<rparr>))
      | Exit_help \<Rightarrow> Parser_exit Exit_help w
      | Exit_error err \<Rightarrow> Parser_exit (Exit_error err) w)"

text \<open>
  The whole module, run as a script: the two registrations (lines 9 and 10) come first,
  then the class definition, then the main block. The result is the registry with which
  the main block runs, and the run.
\<close>

definition run_module ::
  "mime_db \<Rightarrow> mime_db option \<Rightarrow> (string \<Rightarrow> int option) \<Rightarrow> platform \<Rightarrow> string list \<Rightarrow>
   process \<Rightarrow> mime_db option \<times> run" where
  "run_module init_db db py_int os argv w =
     (let db1 = register_mime_types init_db db
      in (db1, main py_int os argv w))"

text \<open>
  How the interpreter ends a run: with the status of the parser's \<^verbatim>\<open>SystemExit\<close>; or,
  for an uncaught exception that is an \<^verbatim>\<open>Exception\<close>, by writing its traceback, which
  ends with the message, to standard error and exiting with status 1. A run that has
  reached \<^verbatim>\<open>serve_forever\<close> has not ended; how the interpreter ends on
  \<^verbatim>\<open>KeyboardInterrupt\<close> or on a \<^verbatim>\<open>SystemExit\<close> raised elsewhere is not modelled. Both give
  \<open>None\<close>.
\<close>

definition interpreter_exit :: "run \<Rightarrow> (nat \<times> process) option" where
  "interpreter_exit r =
     (case r of
        Serving w \<Rightarrow> None
      | Parser_exit p w \<Rightarrow> (case exit_status p of None \<Rightarrow> None | Some s \<Rightarrow> Some (s, w))
      | Uncaught e w \<Rightarrow>
          if issubclass (exc_cls e) Exception
          then Some (1, w\<lparr>stderr := stderr w @ exc_tb e\<rparr>)
          else None)"

section \<open>Serving a file\<close>

text \<open>
  The program serves requests with \<^verbatim>\<open>http.server.SimpleHTTPRequestHandler\<close>
  (serve.py, line 35), which it passes to the server unchanged. The server creates one
  handler for each request, as \<^verbatim>\<open>RequestHandlerClass(request, client_address, self)\<close>,
  and the handler answers a \<^verbatim>\<open>GET\<close> in \<^verbatim>\<open>do_GET\<close>.

  A file is its bytes and the time of its last modification, in whole seconds since the
  epoch. A request is its path and its headers, a response its status, the headers that
  \<^verbatim>\<open>send_head\<close> sends with \<^verbatim>\<open>send_header\<close> (\<^verbatim>\<open>send_response\<close> adds \<^verbatim>\<open>Server\<close> and
  \<^verbatim>\<open>Date\<close>, which are left out) and its body.

  A \<^verbatim>\<open>datetime\<close> is its date and time fields, counted in seconds as a clock set to UTC
  counts them, and its \<^verbatim>\<open>tzinfo\<close>: the offset of its zone from UTC in seconds, or
  \<open>None\<close> for a value without zone. The zone of offset 0 is the object
  \<^verbatim>\<open>datetime.timezone.utc\<close>.
\<close>

datatype datetime = Datetime (wall_time: int) (tzinfo: "int option")

record file_object =
  contents :: string
  st_mtime :: int

record request =
  request_path :: string
  request_headers :: "(string \<times> string) list"

record response =
  status :: nat
  sent_headers :: "(string \<times> string) list"
  body :: string

text \<open>
  What the handler asks of the file system and of other parts of the library:
  \<^item> \<open>translate_path directory path\<close>: the method \<^verbatim>\<open>translate_path\<close> of the handler, from
    the path of a request to a path of the file system below \<open>directory\<close>;
  \<^item> \<open>urlsplit_path\<close>: \<^verbatim>\<open>urllib.parse.urlsplit(path).path\<close>, and \<open>redirect_url\<close>: the same
    URL with \<^verbatim>\<open>/\<close> added to its path;
  \<^item> \<open>isdir\<close>, \<open>isfile\<close>: \<^verbatim>\<open>os.path.isdir\<close> and \<^verbatim>\<open>os.path.isfile\<close>;
  \<^item> \<open>open_rb\<close>: \<^verbatim>\<open>open(path, 'rb')\<close>, \<open>None\<close> when it raises \<^verbatim>\<open>OSError\<close>;
  \<^item> \<open>parsedate_to_datetime\<close>: \<^verbatim>\<open>email.utils.parsedate_to_datetime\<close>, \<open>None\<close> when it
    raises one of the exceptions that \<^verbatim>\<open>send_head\<close> catches, as it does for an ill-formed
    value;
  \<^item> \<open>date_time_string\<close>: the method that formats a time for a header;
  \<^item> \<open>send_error code message\<close>: the response that \<^verbatim>\<open>send_error\<close> writes;
  \<^item> \<open>list_directory\<close>: the method of that name, which writes its own headers.
\<close>

record library =
  translate_path :: "string \<Rightarrow> string \<Rightarrow> string"
  urlsplit_path :: "string \<Rightarrow> string"
  redirect_url :: "string \<Rightarrow> string"
  isdir :: "string \<Rightarrow> bool"
  isfile :: "string \<Rightarrow> bool"
  open_rb :: "string \<Rightarrow> file_object option"
  parsedate_to_datetime :: "string \<Rightarrow> datetime option"
  date_time_string :: "int \<Rightarrow> string"
  send_error :: "nat \<Rightarrow> string \<Rightarrow> response"
  list_directory :: "string \<Rightarrow> response \<times> string option"

text \<open>
  \<^verbatim>\<open>SimpleHTTPRequestHandler.__init__(self, *args, directory=None, **kwargs)\<close>:
  \<^verbatim>\<open>
    if directory is None:
        directory = os.getcwd()
    self.directory = os.fspath(directory)
  \<close>
  The server calls it without \<^verbatim>\<open>directory\<close>, the program having passed the class
  itself as the handler.
\<close>

definition SimpleHTTPRequestHandler_directory :: "string option \<Rightarrow> string \<Rightarrow> string" where
  "SimpleHTTPRequestHandler_directory directory getcwd =
     (case directory of None \<Rightarrow> getcwd | Some d \<Rightarrow> d)"

definition handler_directory :: "string \<Rightarrow> string" where
  "handler_directory getcwd = SimpleHTTPRequestHandler_directory None getcwd"

text \<open>
  Looking a header up, as \<^verbatim>\<open>"If-Modified-Since" in self.headers\<close> and
  \<^verbatim>\<open>self.headers["If-Modified-Since"]\<close> do: the names are compared without regard to
  case, and the first match is taken.
\<close>

definition get_header :: "(string \<times> string) list \<Rightarrow> string \<Rightarrow> string option" where
  "get_header hs name = map_of (map (\<lambda>(k, v). (lower k, v)) hs) (lower name)"

definition endswith :: "string \<Rightarrow> string \<Rightarrow> bool" where
  "endswith s suf = (length suf \<le> length s \<and> drop (length s - length suf) s = suf)"

text \<open>\<^verbatim>\<open>posixpath.join\<close> of two paths.\<close>

definition path_join :: "string \<Rightarrow> string \<Rightarrow> string" where
  "path_join a b =
     (if startswith b ''/'' then b
      else if a = [] \<or> endswith a ''/'' then a @ b
      else a @ ''/'' @ b)"

text \<open>
  The index file of a directory, in \<^verbatim>\<open>send_head\<close>:
  \<^verbatim>\<open>
    for index in "index.html", "index.htm":
        index = os.path.join(path, index)
        if os.path.isfile(index):
            path = index
            break
    else:
        return self.list_directory(path)
  \<close>
\<close>

definition index_file :: "library \<Rightarrow> string \<Rightarrow> string option" where
  "index_file lib path =
     (if isfile lib (path_join path ''index.html'') then Some (path_join path ''index.html'')
      else if isfile lib (path_join path ''index.htm'') then Some (path_join path ''index.htm'')
      else None)"

text \<open>
  The test of \<^verbatim>\<open>send_head\<close> for answering from the cache of the client:
  \<^verbatim>\<open>
    # Use browser cache if possible
    if ("If-Modified-Since" in self.headers
            and "If-None-Match" not in self.headers):
        # compare If-Modified-Since and time of last file modification
        try:
            ims = email.utils.parsedate_to_datetime(
                self.headers["If-Modified-Since"])
        except (TypeError, IndexError, OverflowError, ValueError):
            # ignore ill-formed values
            pass
        else:
            if ims.tzinfo is None:
                # obsolete format with no timezone, cf.
                # https://tools.ietf.org/html/rfc7231#section-7.1.1.1
                ims = ims.replace(tzinfo=datetime.timezone.utc)
            if ims.tzinfo is datetime.timezone.utc:
                # compare to UTC datetime of last modification
                last_modif = datetime.datetime.fromtimestamp(
                    fs.st_mtime, datetime.timezone.utc)
                # remove microseconds, like in If-Modified-Since
                last_modif = last_modif.replace(microsecond=0)

                if last_modif <= ims:
                    self.send_response(HTTPStatus.NOT_MODIFIED)
                    self.end_headers()
                    f.close()
                    return None
  \<close>
  \<^verbatim>\<open>last_modif\<close> is the modification time of the file in UTC, without its fraction of
  a second. A value of another zone than UTC is parsed, but not compared.
\<close>

definition not_modified :: "library \<Rightarrow> request \<Rightarrow> file_object \<Rightarrow> bool" where
  "not_modified lib req f =
     (case get_header (request_headers req) ''If-Modified-Since'' of
        None \<Rightarrow> False
      | Some v \<Rightarrow>
          if get_header (request_headers req) ''If-None-Match'' \<noteq> None then False
          else
            (case parsedate_to_datetime lib v of
               None \<Rightarrow> False
             | Some ims0 \<Rightarrow>
                 (let ims = (if tzinfo ims0 = None then Datetime (wall_time ims0) (Some 0)
                             else ims0)
                  in if tzinfo ims = Some 0 then st_mtime f \<le> wall_time ims else False)))"

text \<open>
  \<^verbatim>\<open>SimpleHTTPRequestHandler.send_head\<close>: the response without its body, and the bytes
  that the caller has to copy into the body, if any.
  \<^verbatim>\<open>
    path = self.translate_path(self.path)
    f = None
    if os.path.isdir(path):
        parts = urllib.parse.urlsplit(self.path)
        if not parts.path.endswith('/'):
            # redirect browser - doing basically what apache does
            self.send_response(HTTPStatus.MOVED_PERMANENTLY)
            new_parts = (parts[0], parts[1], parts[2] + '/',
                         parts[3], parts[4])
            new_url = urllib.parse.urlunsplit(new_parts)
            self.send_header("Location", new_url)
            self.send_header("Content-Length", "0")
            self.end_headers()
            return None
        for index in "index.html", "index.htm":
            ...                                   # index_file
    ctype = self.guess_type(path)
    if path.endswith("/"):
        self.send_error(HTTPStatus.NOT_FOUND, "File not found")
        return None
    try:
        f = open(path, 'rb')
    except OSError:
        self.send_error(HTTPStatus.NOT_FOUND, "File not found")
        return None
    try:
        fs = os.fstat(f.fileno())
        ...                                       # not_modified
        self.send_response(HTTPStatus.OK)
        self.send_header("Content-type", ctype)
        self.send_header("Content-Length", str(fs[6]))
        self.send_header("Last-Modified",
            self.date_time_string(fs.st_mtime))
        self.end_headers()
        return f
    except:
        f.close()
        raise
  \<close>
  \<^verbatim>\<open>fs[6]\<close> is the size of the file, the number of its bytes.
\<close>

definition send_head ::
  "library \<Rightarrow> (string \<Rightarrow> string) \<Rightarrow> mime_db \<Rightarrow> mime_db option \<Rightarrow> string \<Rightarrow> request \<Rightarrow>
   response \<times> string option" where
  "send_head lib urlparse_path init_db db directory req =
     (let path = translate_path lib directory (request_path req)
      in if isdir lib path \<and> \<not> endswith (urlsplit_path lib (request_path req)) ''/''
         then (\<lparr>status = 301,
                 sent_headers = [(''Location'', redirect_url lib (request_path req)),
                                 (''Content-Length'', ''0'')],
                 body = []\<rparr>, None)
         else
           (case (if isdir lib path then index_file lib path else Some path) of
              None \<Rightarrow> list_directory lib path
            | Some path \<Rightarrow>
                (let ctype = guess_type urlparse_path init_db db path
                 in if endswith path ''/'' then (send_error lib 404 ''File not found'', None)
                    else
                      (case open_rb lib path of
                         None \<Rightarrow> (send_error lib 404 ''File not found'', None)
                       | Some f \<Rightarrow>
                           if not_modified lib req f
                           then (\<lparr>status = 304, sent_headers = [], body = []\<rparr>, None)
                           else
                             (\<lparr>status = 200,
                               sent_headers =
                                 [(''Content-type'', ctype),
                                  (''Content-Length'', str_int (int (length (contents f)))),
                                  (''Last-Modified'', date_time_string lib (st_mtime f))],
                               body = []\<rparr>,
                              Some (contents f))))))"

text \<open>
  \<^verbatim>\<open>SimpleHTTPRequestHandler.do_GET\<close>, where \<^verbatim>\<open>copyfile\<close> copies the bytes to the
  connection:
  \<^verbatim>\<open>
    f = self.send_head()
    if f:
        try:
            self.copyfile(f, self.wfile)
        finally:
            f.close()
  \<close>
\<close>

definition do_GET ::
  "library \<Rightarrow> (string \<Rightarrow> string) \<Rightarrow> mime_db \<Rightarrow> mime_db option \<Rightarrow> string \<Rightarrow> request \<Rightarrow> response" where
  "do_GET lib urlparse_path init_db db directory req =
     (case send_head lib urlparse_path init_db db directory req of
        (r, Some f) \<Rightarrow> r\<lparr>body := body r @ f\<rparr>
      | (r, None) \<Rightarrow> r)"

text \<open>
  A \<^verbatim>\<open>GET\<close> request as the program serves it: by a handler created without
  \<^verbatim>\<open>directory\<close>, in a process whose working directory is \<open>getcwd\<close>, with the registry of
  the module. Nothing in the program changes the working directory, so \<open>getcwd\<close> is the
  directory in which the program was launched.
\<close>

definition serve_GET ::
  "library \<Rightarrow> (string \<Rightarrow> string) \<Rightarrow> mime_db \<Rightarrow> mime_db option \<Rightarrow> string \<Rightarrow> request \<Rightarrow> response" where
  "serve_GET lib urlparse_path init_db db getcwd req =
     do_GET lib urlparse_path init_db (register_mime_types init_db db)
       (handler_directory getcwd) req"



section \<open>Properties of the error handling\<close>

lemma BaseServer_handle_error_stderr:
  "BaseServer_handle_error request client_address w =
     Returned (w\<lparr>stderr := stderr w @
        [replicate 40 CHR ''-'',
         ''Exception occurred during processing of request from '' @ client_address] @
        (case handled w of None \<Rightarrow> [''NoneType: None''] | Some e \<Rightarrow> exc_tb e) @
        [replicate 40 CHR ''-'']\<rparr>)"
  by (simp add: BaseServer_handle_error_def print_exc_def Let_def)

lemma handle_error_member:
  assumes "handled w = Some e"
    and "exc_cls e = BrokenPipeError \<or> exc_cls e = ConnectionResetError"
  shows "handle_error request client_address w = Returned w"
  using assms by (auto simp: handle_error_def sys_exc_info_def)

lemma handle_error_not_member:
  assumes "fst (sys_exc_info w) \<noteq> Some BrokenPipeError"
    and "fst (sys_exc_info w) \<noteq> Some ConnectionResetError"
  shows "handle_error request client_address w =
           BaseServer_handle_error request client_address w"
  using assms by (auto simp: handle_error_def split: prod.splits)

lemma BaseServer_handle_error_changes:
  "BaseServer_handle_error request client_address w \<noteq> Returned w"
proof
  assume "BaseServer_handle_error request client_address w = Returned w"
  then have "stderr (case BaseServer_handle_error request client_address w of
                       Returned w' \<Rightarrow> w' | Raised e w' \<Rightarrow> w') = stderr w"
    by simp
  then show False
    by (simp add: BaseServer_handle_error_stderr)
qed

text \<open>
  C1. When the handling of a connection raises \<^verbatim>\<open>BrokenPipeError\<close> or
  \<^verbatim>\<open>ConnectionResetError\<close>, \<open>handle_error\<close> returns, neither raising nor changing the
  process state: nothing is written to standard error or standard output. The thread of
  the connection then ends as it does after a request without error, by shutting the
  request down and returning, so the server goes on serving.
\<close>

theorem handle_error_suppresses_disconnect:
  assumes "exc_cls e = BrokenPipeError \<or> exc_cls e = ConnectionResetError"
  shows "handle_error request client_address (w\<lparr>handled := Some e\<rparr>) =
           Returned (w\<lparr>handled := Some e\<rparr>) \<and>
         (finish_request request client_address w0 = Raised e w \<longrightarrow>
          process_request_thread finish_request shutdown_request request client_address w0 =
            Returned (shutdown_request request w))"
proof -
  have h: "handle_error request client_address (w\<lparr>handled := Some e\<rparr>) =
             Returned (w\<lparr>handled := Some e\<rparr>)"
    using assms by (intro handle_error_member [of _ e]) simp_all
  have "issubclass (exc_cls e) Exception"
    using assms by (auto simp: issubclass_def)
  then show ?thesis
    by (simp add: process_request_thread_def h)
qed

theorem handle_error_suppresses_disconnect_witness:
  "handle_error () ''peer''
     (\<lparr>handled = None, stdout = [], stderr = []\<rparr>
        \<lparr>handled := Some (Exc BrokenPipeError ''Broken pipe'' [''tb''])\<rparr>) =
     Returned (\<lparr>handled = None, stdout = [], stderr = []\<rparr>
        \<lparr>handled := Some (Exc BrokenPipeError ''Broken pipe'' [''tb''])\<rparr>) \<and>
   process_request_thread
     (\<lambda>r a w. Raised (Exc BrokenPipeError ''Broken pipe'' [''tb'']) w) (\<lambda>r w. w)
     () ''peer'' \<lparr>handled = None, stdout = [], stderr = []\<rparr> =
     Returned \<lparr>handled = None, stdout = [], stderr = []\<rparr>"
  using handle_error_suppresses_disconnect
    [of "Exc BrokenPipeError ''Broken pipe'' [''tb'']" "()" "''peer''"
        "\<lparr>handled = None, stdout = [], stderr = []\<rparr>"
        "\<lambda>r a w. Raised (Exc BrokenPipeError ''Broken pipe'' [''tb'']) w"
        "\<lparr>handled = None, stdout = [], stderr = []\<rparr>" "\<lambda>r w. w"]
  by simp

text \<open>
  C2. For every other state of \<^verbatim>\<open>sys.exc_info()\<close> (an exception of any class but those
  two, or none), \<open>handle_error\<close> does what the base class does: it writes the report,
  four entries ending with the traceback and a rule, to standard error and returns. It
  does not raise, so the thread of a connection whose handling raised such an
  \<^verbatim>\<open>Exception\<close> writes the report, shuts the request down and returns like any other.
\<close>

theorem handle_error_falls_through:
  assumes "fst (sys_exc_info w) \<noteq> Some BrokenPipeError"
    and "fst (sys_exc_info w) \<noteq> Some ConnectionResetError"
  shows "handle_error request client_address w =
           BaseServer_handle_error request client_address w \<and>
         handle_error request client_address w =
           Returned (w\<lparr>stderr := stderr w @
             [replicate 40 CHR ''-'',
              ''Exception occurred during processing of request from '' @ client_address] @
             (case handled w of None \<Rightarrow> [''NoneType: None''] | Some e \<Rightarrow> exc_tb e) @
             [replicate 40 CHR ''-'']\<rparr>) \<and>
         (finish_request request client_address w0 = Raised e w1 \<and>
          issubclass (exc_cls e) Exception \<and>
          exc_cls e \<noteq> BrokenPipeError \<and> exc_cls e \<noteq> ConnectionResetError \<longrightarrow>
          process_request_thread finish_request shutdown_request request client_address w0 =
            Returned (shutdown_request request (w1\<lparr>stderr := stderr w1 @
              [replicate 40 CHR ''-'',
               ''Exception occurred during processing of request from '' @ client_address] @
              exc_tb e @ [replicate 40 CHR ''-'']\<rparr>)))"
proof (intro conjI impI)
  assume a: "finish_request request client_address w0 = Raised e w1 \<and>
          issubclass (exc_cls e) Exception \<and>
          exc_cls e \<noteq> BrokenPipeError \<and> exc_cls e \<noteq> ConnectionResetError"
  then have "handle_error request client_address (w1\<lparr>handled := Some e\<rparr>) =
               BaseServer_handle_error request client_address (w1\<lparr>handled := Some e\<rparr>)"
    by (intro handle_error_not_member) (simp_all add: sys_exc_info_def)
  with a show "process_request_thread finish_request shutdown_request request client_address w0 =
            Returned (shutdown_request request (w1\<lparr>stderr := stderr w1 @
              [replicate 40 CHR ''-'',
               ''Exception occurred during processing of request from '' @ client_address] @
              exc_tb e @ [replicate 40 CHR ''-'']\<rparr>))"
    by (simp add: process_request_thread_def BaseServer_handle_error_stderr)
qed (simp_all add: handle_error_not_member [OF assms] BaseServer_handle_error_stderr)

theorem handle_error_falls_through_witness:
  "handle_error () ''peer''
     \<lparr>handled = Some (Exc ValueError ''bad'' [''tb'']), stdout = [], stderr = []\<rparr> =
   Returned \<lparr>handled = Some (Exc ValueError ''bad'' [''tb'']), stdout = [],
     stderr = [replicate 40 CHR ''-'',
               ''Exception occurred during processing of request from peer'', ''tb'',
               replicate 40 CHR ''-'']\<rparr> \<and>
   process_request_thread (\<lambda>r a w. Raised (Exc ValueError ''bad'' [''tb'']) w) (\<lambda>r w. w)
     () ''peer'' \<lparr>handled = None, stdout = [], stderr = []\<rparr> =
   Returned \<lparr>handled = None, stdout = [],
     stderr = [replicate 40 CHR ''-'',
               ''Exception occurred during processing of request from peer'', ''tb'',
               replicate 40 CHR ''-'']\<rparr>"
  using handle_error_falls_through
    [where w = "\<lparr>handled = Some (Exc ValueError ''bad'' [''tb'']), stdout = [], stderr = []\<rparr>"
       and request = "()" and client_address = "''peer''"
       and finish_request = "\<lambda>r a w. Raised (Exc ValueError ''bad'' [''tb'']) w"
       and shutdown_request = "\<lambda>r w. w"
       and ?w0.0 = "\<lparr>handled = None, stdout = [], stderr = []\<rparr>"
       and ?w1.0 = "\<lparr>handled = None, stdout = [], stderr = []\<rparr>"
       and e = "Exc ValueError ''bad'' [''tb'']"]
  by (simp add: sys_exc_info_def BaseServer_handle_error_stderr issubclass_def)

text \<open>
  C10. The test compares the class of the exception itself with the two classes: the
  error is suppressed (the call returns with the state as it was) exactly when that class
  is one of the two. The class of an exception that is an instance of a proper subclass
  of \<^verbatim>\<open>BrokenPipeError\<close> or of \<^verbatim>\<open>ConnectionResetError\<close> is not one of the two, so such
  an exception is reported as the base class reports it.
\<close>

theorem handle_error_tests_exact_class:
  "(handle_error request client_address w = Returned w) =
     (fst (sys_exc_info w) \<in> {Some BrokenPipeError, Some ConnectionResetError}) \<and>
   ((issubclass c BrokenPipeError \<or> issubclass c ConnectionResetError) \<and>
    c \<noteq> BrokenPipeError \<and> c \<noteq> ConnectionResetError \<and> handled w = Some (Exc c m tb) \<longrightarrow>
    handle_error request client_address w =
      BaseServer_handle_error request client_address w)"
proof (intro conjI impI)
  show "(handle_error request client_address w = Returned w) =
     (fst (sys_exc_info w) \<in> {Some BrokenPipeError, Some ConnectionResetError})"
  proof (cases "fst (sys_exc_info w) \<in> {Some BrokenPipeError, Some ConnectionResetError}")
    case True
    then show ?thesis
      by (auto simp: handle_error_def split: prod.splits)
  next
    case False
    then have "handle_error request client_address w =
                 BaseServer_handle_error request client_address w"
      by (intro handle_error_not_member) auto
    with False show ?thesis
      by (simp add: BaseServer_handle_error_changes)
  qed
next
  assume a: "(issubclass c BrokenPipeError \<or> issubclass c ConnectionResetError) \<and>
    c \<noteq> BrokenPipeError \<and> c \<noteq> ConnectionResetError \<and> handled w = Some (Exc c m tb)"
  then show "handle_error request client_address w =
      BaseServer_handle_error request client_address w"
    by (intro handle_error_not_member) (simp_all add: sys_exc_info_def)
qed

theorem handle_error_tests_exact_class_witness:
  "issubclass (Subclass ''ClientGone'' BrokenPipeError) BrokenPipeError \<and>
   handle_error () ''peer''
     \<lparr>handled = Some (Exc (Subclass ''ClientGone'' BrokenPipeError) ''gone'' [''tb'']),
      stdout = [], stderr = []\<rparr> =
   BaseServer_handle_error () ''peer''
     \<lparr>handled = Some (Exc (Subclass ''ClientGone'' BrokenPipeError) ''gone'' [''tb'']),
      stdout = [], stderr = []\<rparr> \<and>
   handle_error () ''peer''
     \<lparr>handled = Some (Exc (Subclass ''ClientGone'' BrokenPipeError) ''gone'' [''tb'']),
      stdout = [], stderr = []\<rparr> \<noteq>
   Returned
     \<lparr>handled = Some (Exc (Subclass ''ClientGone'' BrokenPipeError) ''gone'' [''tb'']),
      stdout = [], stderr = []\<rparr>"
  using handle_error_tests_exact_class
    [of "()" "''peer''"
        "\<lparr>handled = Some (Exc (Subclass ''ClientGone'' BrokenPipeError) ''gone'' [''tb'']),
          stdout = [], stderr = []\<rparr>"
        "Subclass ''ClientGone'' BrokenPipeError" "''gone''" "[''tb'']"]
  by (simp add: issubclass_def sys_exc_info_def BaseServer_handle_error_stderr)


section \<open>Properties of the MIME registration\<close>

lemma splitext_component:
  assumes "dir = [] \<or> last dir = CHR ''/''" and "CHR ''/'' \<notin> set name"
    and "CHR ''.'' \<notin> set e" and "CHR ''/'' \<notin> set e"
  shows "splitext (dir @ name @ CHR ''.'' # e) =
           (if \<exists>c \<in> set name. c \<noteq> CHR ''.''
            then (dir @ name, CHR ''.'' # e)
            else (dir @ name @ CHR ''.'' # e, []))"
proof -
  have "rfind dir CHR ''/'' + 1 = int (length dir)"
  proof (cases "dir = []")
    case True
    then show ?thesis by (simp add: rfind_def)
  next
    case False
    with assms(1) have "dir = butlast dir @ CHR ''/'' # []"
      by (metis append_butlast_last_id)
    then have "rfind dir CHR ''/'' = int (length (butlast dir))"
      using rfind_last_occurrence [of "CHR ''/''" "[]" "butlast dir"] by simp
    with False show ?thesis
      by (cases dir rule: rev_cases) simp_all
  qed
  moreover have "rfind (dir @ name) CHR ''/'' = rfind dir CHR ''/''"
    using assms(2) by (rule rfind_append_notin)
  ultimately have start: "nat (rfind (dir @ name) CHR ''/'' + 1) = length dir"
    by simp
  have ex: "(\<exists>j. length dir \<le> j \<and> j < length (dir @ name) \<and> (dir @ name) ! j \<noteq> CHR ''.'') =
            (\<exists>c \<in> set name. c \<noteq> CHR ''.'')"
  proof
    assume "\<exists>j. length dir \<le> j \<and> j < length (dir @ name) \<and> (dir @ name) ! j \<noteq> CHR ''.''"
    then obtain j where j: "length dir \<le> j" "j < length (dir @ name)"
        "(dir @ name) ! j \<noteq> CHR ''.''"
      by blast
    then have "name ! (j - length dir) \<noteq> CHR ''.''" and "j - length dir < length name"
      by (auto simp: nth_append)
    then show "\<exists>c \<in> set name. c \<noteq> CHR ''.''"
      using nth_mem by blast
  next
    assume "\<exists>c \<in> set name. c \<noteq> CHR ''.''"
    then obtain k where k: "k < length name" "name ! k \<noteq> CHR ''.''"
      by (metis in_set_conv_nth)
    then have "length dir \<le> length dir + k \<and> length dir + k < length (dir @ name) \<and>
               (dir @ name) ! (length dir + k) \<noteq> CHR ''.''"
      by (simp add: nth_append)
    then show "\<exists>j. length dir \<le> j \<and> j < length (dir @ name) \<and> (dir @ name) ! j \<noteq> CHR ''.''"
      by blast
  qed
  show ?thesis
    using splitext_suffix [OF assms(3,4), of "dir @ name"]
    unfolding start ex by simp
qed

lemma urlsplit_scheme_absolute: "urlsplit_scheme (CHR ''/'' # rest) = []"
  by (simp add: urlsplit_scheme_def Let_def ascii_alpha_def)

lemma suffix_loop_stop:
  "map_of suffix_map (lower ext) = None \<Longrightarrow> suffix_loop base ext = (base, ext)"
  by (subst suffix_loop.simps) simp

lemma guess_type_by_ext:
  assumes "splitext (CHR ''/'' # rest) = (b, ext)"
    and "map_of extensions_map ext = None"
    and "map_of extensions_map (lower ext) = None"
    and "map_of suffix_map (lower ext) = None"
    and "map_of encodings_map ext = None"
  shows "guess_type urlparse_path init_db db (CHR ''/'' # rest) =
           (case types_map (case db of None \<Rightarrow> init_db | Some d \<Rightarrow> d) True (lower ext) of
              Some g \<Rightarrow> if g \<noteq> [] then g else ''application/octet-stream''
            | None \<Rightarrow> ''application/octet-stream'')"
  using assms
  by (simp add: guess_type_def mimetypes_guess_type_def MimeTypes_guess_type_def
      urlsplit_scheme_absolute suffix_loop_stop Let_def split: option.splits)

lemma register_mime_types_Some:
  "register_mime_types init_db db =
     Some (MimeTypes_add_type
             (MimeTypes_add_type (case db of None \<Rightarrow> init_db | Some d \<Rightarrow> d)
                ''application/javascript'' ''.js'' True)
             ''text/css'' ''.css'' True)"
  by (simp add: register_mime_types_def mimetypes_add_type_def Let_def)

lemma types_map_registered:
  "types_map (MimeTypes_add_type (MimeTypes_add_type base ''application/javascript'' ''.js'' True)
                ''text/css'' ''.css'' True) =
     (types_map base)
       (True := (types_map base True)
          (''.js'' \<mapsto> ''application/javascript'', ''.css'' \<mapsto> ''text/css''))"
  by (simp add: MimeTypes_add_type_def Let_def)

lemma guess_type_registered:
  assumes "dir \<noteq> []" and "hd dir = CHR ''/''" and "last dir = CHR ''/''"
    and "CHR ''/'' \<notin> set name" and "\<exists>c \<in> set name. c \<noteq> CHR ''.''"
  shows "guess_type urlparse_path init_db (register_mime_types init_db db)
           (dir @ name @ ''.js'') = ''application/javascript''"
    and "guess_type urlparse_path init_db (register_mime_types init_db db)
           (dir @ name @ ''.css'') = ''text/css''"
proof -
  obtain rest where dir: "dir = CHR ''/'' # rest"
    using assms(1,2) by (cases dir) auto
  have js: "splitext (CHR ''/'' # rest @ name @ ''.js'') = (dir @ name, ''.js'')"
    using splitext_component [of dir name "''js''"] assms(3,4,5) by (simp add: dir)
  have css: "splitext (CHR ''/'' # rest @ name @ ''.css'') = (dir @ name, ''.css'')"
    using splitext_component [of dir name "''css''"] assms(3,4,5) by (simp add: dir)
  show "guess_type urlparse_path init_db (register_mime_types init_db db)
          (dir @ name @ ''.js'') = ''application/javascript''"
    using guess_type_by_ext [OF js, of urlparse_path init_db "register_mime_types init_db db"]
    by (simp add: dir register_mime_types_Some types_map_registered extensions_map_def
        suffix_map_def encodings_map_def lower_def lower_char_def)
  show "guess_type urlparse_path init_db (register_mime_types init_db db)
          (dir @ name @ ''.css'') = ''text/css''"
    using guess_type_by_ext [OF css, of urlparse_path init_db "register_mime_types init_db db"]
    by (simp add: dir register_mime_types_Some types_map_registered extensions_map_def
        suffix_map_def encodings_map_def lower_def lower_char_def)
qed

lemma send_head_file:
  assumes "translate_path lib directory (request_path req) = P"
    and "\<not> isdir lib P" and "\<not> endswith P ''/''" and "open_rb lib P = Some f"
  shows "send_head lib urlparse_path init_db db directory req =
           (if not_modified lib req f
            then (\<lparr>status = 304, sent_headers = [], body = []\<rparr>, None)
            else (\<lparr>status = 200,
                    sent_headers =
                      [(''Content-type'', guess_type urlparse_path init_db db P),
                       (''Content-Length'', str_int (int (length (contents f)))),
                       (''Last-Modified'', date_time_string lib (st_mtime f))],
                    body = []\<rparr>,
                  Some (contents f)))"
  using assms by (simp add: send_head_def Let_def)

lemma handler_directory_getcwd: "handler_directory getcwd = getcwd"
  by (simp add: handler_directory_def SimpleHTTPRequestHandler_directory_def)

lemma served_content_type:
  assumes "translate_path lib getcwd (request_path req) = P"
    and "\<not> isdir lib P" and "\<not> endswith P ''/''" and "open_rb lib P = Some f"
    and "\<not> not_modified lib req f"
  shows "map_of (sent_headers (serve_GET lib urlparse_path init_db db getcwd req))
           ''Content-type'' =
         Some (guess_type urlparse_path init_db (register_mime_types init_db db) P)"
  using assms(5)
  by (simp add: serve_GET_def do_GET_def handler_directory_getcwd
      send_head_file [OF assms(1-4)])

lemma not_endswith_slash: "c \<noteq> CHR ''/'' \<Longrightarrow> \<not> endswith (q @ [c]) ''/''"
  by (simp add: endswith_def)

text \<open>
  C3, as the code has it. Loading the module adds exactly two entries to the strict table
  of the registry, \<^verbatim>\<open>.js\<close> for \<^verbatim>\<open>application/javascript\<close> and \<^verbatim>\<open>.css\<close> for \<^verbatim>\<open>text/css\<close>,
  whatever the platform's table held for them, and leaves the other table alone; this is
  the registry with which the main block runs, whatever the arguments and the platform. With
  that registry the handler gives the type \<^verbatim>\<open>application/javascript\<close> to every absolute
  path \<open>dir/name.js\<close> and \<^verbatim>\<open>text/css\<close> to every \<open>dir/name.css\<close> whose file name has a
  character other than a dot before the suffix, on every platform, and that type is the
  \<^verbatim>\<open>Content-type\<close> of the response with which the program serves such a file. (A file
  named \<^verbatim>\<open>.js\<close> has no extension for \<^verbatim>\<open>splitext\<close>: see the counterexample.)
\<close>

theorem registered_types_take_precedence:
  assumes "dir \<noteq> []" and "hd dir = CHR ''/''" and "last dir = CHR ''/''"
    and "CHR ''/'' \<notin> set name" and "\<exists>c \<in> set name. c \<noteq> CHR ''.''"
  shows "(\<exists>d. register_mime_types init_db db = Some d \<and>
            types_map d True =
              (types_map (case db of None \<Rightarrow> init_db | Some d' \<Rightarrow> d') True)
                (''.js'' \<mapsto> ''application/javascript'', ''.css'' \<mapsto> ''text/css'') \<and>
            types_map d False =
              types_map (case db of None \<Rightarrow> init_db | Some d' \<Rightarrow> d') False) \<and>
         fst (run_module init_db db py_int os argv w) = register_mime_types init_db db \<and>
         guess_type urlparse_path init_db (register_mime_types init_db db)
           (dir @ name @ ''.js'') = ''application/javascript'' \<and>
         guess_type urlparse_path init_db (register_mime_types init_db db)
           (dir @ name @ ''.css'') = ''text/css'' \<and>
         (translate_path lib getcwd (request_path req) = dir @ name @ ''.js'' \<and>
          \<not> isdir lib (dir @ name @ ''.js'') \<and> open_rb lib (dir @ name @ ''.js'') = Some f \<and>
          \<not> not_modified lib req f \<longrightarrow>
          map_of (sent_headers (serve_GET lib urlparse_path init_db db getcwd req))
            ''Content-type'' = Some ''application/javascript'') \<and>
         (translate_path lib getcwd (request_path req) = dir @ name @ ''.css'' \<and>
          \<not> isdir lib (dir @ name @ ''.css'') \<and> open_rb lib (dir @ name @ ''.css'') = Some f \<and>
          \<not> not_modified lib req f \<longrightarrow>
          map_of (sent_headers (serve_GET lib urlparse_path init_db db getcwd req))
            ''Content-type'' = Some ''text/css'')"
proof (intro conjI impI)
  show "\<exists>d. register_mime_types init_db db = Some d \<and>
            types_map d True =
              (types_map (case db of None \<Rightarrow> init_db | Some d' \<Rightarrow> d') True)
                (''.js'' \<mapsto> ''application/javascript'', ''.css'' \<mapsto> ''text/css'') \<and>
            types_map d False =
              types_map (case db of None \<Rightarrow> init_db | Some d' \<Rightarrow> d') False"
    by (simp add: register_mime_types_Some types_map_registered)
  show "fst (run_module init_db db py_int os argv w) = register_mime_types init_db db"
    by (simp add: run_module_def Let_def)
  show "guess_type urlparse_path init_db (register_mime_types init_db db)
           (dir @ name @ ''.js'') = ''application/javascript''"
    by (rule guess_type_registered [OF assms])
  show "guess_type urlparse_path init_db (register_mime_types init_db db)
           (dir @ name @ ''.css'') = ''text/css''"
    by (rule guess_type_registered [OF assms])
next
  assume a: "translate_path lib getcwd (request_path req) = dir @ name @ ''.js'' \<and>
          \<not> isdir lib (dir @ name @ ''.js'') \<and> open_rb lib (dir @ name @ ''.js'') = Some f \<and>
          \<not> not_modified lib req f"
  have "\<not> endswith ((dir @ name @ ''.j'') @ [CHR ''s'']) ''/''"
    by (rule not_endswith_slash) simp
  then have "\<not> endswith (dir @ name @ ''.js'') ''/''"
    by simp
  with a have "map_of (sent_headers (serve_GET lib urlparse_path init_db db getcwd req))
            ''Content-type'' =
         Some (guess_type urlparse_path init_db (register_mime_types init_db db)
                 (dir @ name @ ''.js''))"
    by (intro served_content_type [where f = f]) simp_all
  then show "map_of (sent_headers (serve_GET lib urlparse_path init_db db getcwd req))
            ''Content-type'' = Some ''application/javascript''"
    by (simp only: guess_type_registered(1) [OF assms])
next
  assume a: "translate_path lib getcwd (request_path req) = dir @ name @ ''.css'' \<and>
          \<not> isdir lib (dir @ name @ ''.css'') \<and> open_rb lib (dir @ name @ ''.css'') = Some f \<and>
          \<not> not_modified lib req f"
  have "\<not> endswith ((dir @ name @ ''.cs'') @ [CHR ''s'']) ''/''"
    by (rule not_endswith_slash) simp
  then have "\<not> endswith (dir @ name @ ''.css'') ''/''"
    by simp
  with a have "map_of (sent_headers (serve_GET lib urlparse_path init_db db getcwd req))
            ''Content-type'' =
         Some (guess_type urlparse_path init_db (register_mime_types init_db db)
                 (dir @ name @ ''.css''))"
    by (intro served_content_type [where f = f]) simp_all
  then show "map_of (sent_headers (serve_GET lib urlparse_path init_db db getcwd req))
            ''Content-type'' = Some ''text/css''"
    by (simp only: guess_type_registered(2) [OF assms])
qed

theorem registered_types_take_precedence_witness:
  "guess_type (\<lambda>u. u)
     \<lparr>types_map = (\<lambda>strict. [''.js'' \<mapsto> ''text/javascript'']), types_map_inv = (\<lambda>strict. Map.empty)\<rparr>
     (register_mime_types
        \<lparr>types_map = (\<lambda>strict. [''.js'' \<mapsto> ''text/javascript'']),
         types_map_inv = (\<lambda>strict. Map.empty)\<rparr> None)
     ''/srv/www/app.js'' = ''application/javascript'' \<and>
   guess_type (\<lambda>u. u)
     \<lparr>types_map = (\<lambda>strict. [''.js'' \<mapsto> ''text/javascript'']), types_map_inv = (\<lambda>strict. Map.empty)\<rparr>
     (register_mime_types
        \<lparr>types_map = (\<lambda>strict. [''.js'' \<mapsto> ''text/javascript'']),
         types_map_inv = (\<lambda>strict. Map.empty)\<rparr> None)
     ''/srv/www/app.css'' = ''text/css''"
  using registered_types_take_precedence
    [where dir = "''/srv/www/''" and name = "''app''"
       and init_db = "\<lparr>types_map = (\<lambda>strict. [''.js'' \<mapsto> ''text/javascript'']),
                       types_map_inv = (\<lambda>strict. Map.empty)\<rparr>"
       and db = None and urlparse_path = "\<lambda>u. u"]
  by simp

text \<open>
  C3 as stated fails: the path \<^verbatim>\<open>/srv/www/.js\<close> ends in \<^verbatim>\<open>.js\<close>, but \<^verbatim>\<open>splitext\<close>
  ignores the leading dot of a file name, so the file has no extension and is served as
  \<^verbatim>\<open>application/octet-stream\<close>.
\<close>

theorem dotfile_js_counterexample:
  "''/srv/www/.js'' = ''/srv/www/'' @ ''.js'' \<and>
   guess_type (\<lambda>u. u)
     \<lparr>types_map = (\<lambda>strict. [''.js'' \<mapsto> ''text/javascript'']), types_map_inv = (\<lambda>strict. Map.empty)\<rparr>
     (register_mime_types
        \<lparr>types_map = (\<lambda>strict. [''.js'' \<mapsto> ''text/javascript'']),
         types_map_inv = (\<lambda>strict. Map.empty)\<rparr> None)
     ''/srv/www/.js'' = ''application/octet-stream''"
proof -
  have s: "splitext (CHR ''/'' # ''srv/www/.js'') = (''/srv/www/.js'', [])"
    using splitext_component [of "''/srv/www/''" "[]" "''js''"] by simp
  show ?thesis
    using guess_type_by_ext [OF s, of "\<lambda>u. u"
        "\<lparr>types_map = (\<lambda>strict. [''.js'' \<mapsto> ''text/javascript'']),
          types_map_inv = (\<lambda>strict. Map.empty)\<rparr>"
        "register_mime_types
           \<lparr>types_map = (\<lambda>strict. [''.js'' \<mapsto> ''text/javascript'']),
            types_map_inv = (\<lambda>strict. Map.empty)\<rparr> None"]
    by (simp add: register_mime_types_Some types_map_registered extensions_map_def
        suffix_map_def encodings_map_def lower_def)
qed

section \<open>Properties of the command line\<close>

lemma negative_number_shape:
  assumes "negative_number_matcher n"
  obtains d t where "n = CHR ''-'' # d # t" and "is_digit d \<or> d = CHR ''.''"
proof -
  have shape: "\<exists>d t. s = CHR ''-'' # d # t \<and> (is_digit d \<or> d = CHR ''.'')"
    if "full_negative_number s" for s
  proof -
    from that obtain t where s: "s = CHR ''-'' # t"
      and t: "(t \<noteq> [] \<and> list_all is_digit t) \<or>
              (CHR ''.'' \<in> set t \<and> list_all is_digit (takeWhile (\<lambda>c. c \<noteq> CHR ''.'') t))"
      by (auto simp: full_negative_number_def split: list.splits)
    from t have "t \<noteq> []" by auto
    then obtain d t' where t': "t = d # t'" by (cases t) auto
    with t have "is_digit d \<or> d = CHR ''.''"
      by (cases "d = CHR ''.''") auto
    with s t' show ?thesis by blast
  qed
  from assms consider "full_negative_number n"
    | "n \<noteq> []" "full_negative_number (butlast n)"
    by (auto simp: negative_number_matcher_def)
  then show ?thesis
  proof cases
    case 1
    with shape that show ?thesis by blast
  next
    case 2
    with shape obtain d t where "butlast n = CHR ''-'' # d # t"
        and d: "is_digit d \<or> d = CHR ''.''"
      by blast
    with 2(1) have "n = CHR ''-'' # d # (t @ [last n])"
      by (metis append_Cons append_butlast_last_id)
    with d that show ?thesis by blast
  qed
qed

lemma negative_number_is_argument:
  assumes "negative_number_matcher n"
  shows "parse_optional n = Inr None"
proof -
  from assms obtain d t where n: "n = CHR ''-'' # d # t"
    and d: "is_digit d \<or> d = CHR ''.''"
    by (rule negative_number_shape)
  from d have dd: "d \<noteq> CHR ''h''" "d \<noteq> CHR ''-''" "d \<noteq> CHR ''=''"
    by (auto simp: is_digit_def)
  have table: "map_of option_string_actions (CHR ''-'' # d # t') = None" for t'
    using dd by (simp add: option_string_actions_def)
  have tuples: "get_option_tuples n = []"
    using dd by (simp add: n get_option_tuples_def option_string_actions_def startswith_def)
  obtain os sep ex where p: "partition_eq n = (os, sep, ex)"
    by (rule prod_cases3)
  have look: "map_of option_string_actions os = None" if "sep \<noteq> []"
  proof -
    from that p have "os = CHR ''-'' # d # takeWhile (\<lambda>c. c \<noteq> CHR ''='') t"
      using dd by (auto simp: partition_eq_def n split: if_splits)
    then show ?thesis by (simp add: table)
  qed
  show ?thesis
  proof (cases "sep = []")
    case True
    with assms table [of t] tuples p show ?thesis
      by (simp add: parse_optional_def n Let_def)
  next
    case False
    with assms table [of t] tuples p look show ?thesis
      by (simp add: parse_optional_def n Let_def)
  qed
qed

lemma argument_string:
  assumes "n = [] \<or> hd n \<noteq> CHR ''-'' \<or> negative_number_matcher n"
  shows "parse_optional n = Inr None" and "n \<noteq> ''--''"
proof -
  show "parse_optional n = Inr None"
  proof (cases "negative_number_matcher n")
    case True
    then show ?thesis by (rule negative_number_is_argument)
  next
    case False
    with assms have "n = [] \<or> hd n \<noteq> CHR ''-''" by blast
    then show ?thesis by (auto simp: parse_optional_def)
  qed
  show "n \<noteq> ''--''"
    using assms
    by (auto simp: negative_number_matcher_def full_negative_number_def is_digit_def)
qed

lemma parse_optional_port: "parse_optional ''--port'' = Inr (Some (Some Port, ''--port'', None, None))"
  by (simp add: parse_optional_def option_string_actions_def)

lemma parse_optional_port_eq:
  "parse_optional (''--port='' @ m) = Inr (Some (Some Port, ''--port'', Some ''='', Some m))"
  by (simp add: parse_optional_def option_string_actions_def partition_eq_def)

lemma parse_args_port_separate:
  assumes "n = [] \<or> hd n \<noteq> CHR ''-'' \<or> negative_number_matcher n"
  shows "parse_args py_int [''--port'', n] =
           (case py_int n of
              Some v \<Rightarrow> Namespace v
            | None \<Rightarrow> Exit_error (Invalid_int_value n))"
  using argument_string [OF assms]
  by (simp add: parse_args_def parse_optional_port split: option.splits)

lemma parse_args_port_explicit:
  "parse_args py_int [''--port='' @ m] =
     (case py_int m of
        Some v \<Rightarrow> Namespace v
      | None \<Rightarrow> Exit_error (Invalid_int_value m))"
proof -
  have "''--port='' @ m \<noteq> ''--''" by simp
  then show ?thesis
    by (simp add: parse_args_def parse_optional_port_eq split: option.splits
        del: append.simps)
qed

text \<open>
  C5, as the code has it. The program declares one option of its own, \<^verbatim>\<open>--port\<close>;
  \<^verbatim>\<open>argparse\<close> adds \<^verbatim>\<open>-h\<close> and \<^verbatim>\<open>--help\<close>, which print the help and exit with status
  0. Run with no argument, the port is 8000. Run
  with \<^verbatim>\<open>--port N\<close>, where \<open>N\<close> does not start with \<^verbatim>\<open>-\<close> or is a negative number for
  \<^verbatim>\<open>argparse\<close>, or with \<^verbatim>\<open>--port=N\<close> for any \<open>N\<close>, the port is \<^verbatim>\<open>int(N)\<close>, whatever that
  integer is; when \<^verbatim>\<open>int\<close> rejects \<open>N\<close> the parser exits with status 2.
\<close>

theorem parse_args_port:
  assumes "n = [] \<or> hd n \<noteq> CHR ''-'' \<or> negative_number_matcher n"
  shows "map fst (filter (\<lambda>(os, a). a = Port) option_string_actions) = [''--port''] \<and>
         map fst (filter (\<lambda>(os, a). a = Help) option_string_actions) = [''-h'', ''--help''] \<and>
         parse_args py_int [] = Namespace 8000 \<and>
         parse_args py_int [''--port'', n] =
           (case py_int n of
              Some v \<Rightarrow> Namespace v
            | None \<Rightarrow> Exit_error (Invalid_int_value n)) \<and>
         parse_args py_int [''--port='' @ m] =
           (case py_int m of
              Some v \<Rightarrow> Namespace v
            | None \<Rightarrow> Exit_error (Invalid_int_value m)) \<and>
         exit_status (Exit_error (Invalid_int_value n)) = Some 2 \<and>
         parse_args py_int [''-h''] = Exit_help \<and>
         parse_args py_int [''--help''] = Exit_help \<and>
         exit_status Exit_help = Some 0"
proof (intro conjI)
  show "parse_args py_int [''-h''] = Exit_help"
    by (simp add: parse_args_def parse_optional_def option_string_actions_def)
  show "parse_args py_int [''--help''] = Exit_help"
    by (simp add: parse_args_def parse_optional_def option_string_actions_def)
  show "parse_args py_int [] = Namespace 8000"
    by (simp add: parse_args_def DEFAULT_PORT_def)
  show "parse_args py_int [''--port'', n] =
          (case py_int n of
             Some v \<Rightarrow> Namespace v
           | None \<Rightarrow> Exit_error (Invalid_int_value n))"
    using assms by (rule parse_args_port_separate)
  show "parse_args py_int [''--port='' @ m] =
          (case py_int m of
             Some v \<Rightarrow> Namespace v
           | None \<Rightarrow> Exit_error (Invalid_int_value m))"
    by (rule parse_args_port_explicit)
qed (simp_all add: option_string_actions_def)

theorem parse_args_port_witness:
  "parse_args (\<lambda>s. if s = ''70000'' then Some 70000 else if s = ''-1'' then Some (- 1) else None)
     [''--port'', ''70000''] = Namespace 70000 \<and>
   parse_args (\<lambda>s. if s = ''70000'' then Some 70000 else if s = ''-1'' then Some (- 1) else None)
     [''--port=-1''] = Namespace (- 1) \<and>
   parse_args (\<lambda>s. if s = ''70000'' then Some 70000 else if s = ''-1'' then Some (- 1) else None)
     [] = Namespace 8000"
  using parse_args_port
    [of "''70000''"
        "\<lambda>s. if s = ''70000'' then Some 70000 else if s = ''-1'' then Some (- 1) else None"
        "''-1''"]
  by simp

text \<open>
  C5 as stated fails: \<^verbatim>\<open>--help\<close> is a flag the command line accepts, and the invocation
  \<^verbatim>\<open>serve.py --help\<close>, which omits \<^verbatim>\<open>--port\<close>, prints the help and exits with status 0
  instead of listening on port 8000.
\<close>

theorem help_flag_counterexample:
  "parse_args (\<lambda>s. None) [''--help''] = Exit_help \<and>
   exit_status (parse_args (\<lambda>s. None) [''--help'']) = Some 0 \<and>
   parse_args (\<lambda>s. None) [''--help''] \<noteq> Namespace 8000 \<and>
   ''--port'' \<notin> set [''--help'']"
  by (simp add: parse_args_def parse_optional_def option_string_actions_def)

section \<open>Properties of the start\<close>

lemma sockopts_append: "sockopts (cs @ ds) = sockopts cs @ sockopts ds"
  by (induction cs rule: sockopts.induct) simp_all

lemma server_bind_reuse:
  assumes "has_SO_REUSEADDR os"
  shows "server_bind os True False server_address w =
           (case bind_error os (sockopts (calls w) @ [SO_REUSEADDR]) server_address of
              Some e \<Rightarrow>
                Raised e (w\<lparr>calls := calls w @ [Setsockopt SO_REUSEADDR 1, Bind server_address]\<rparr>)
            | None \<Rightarrow>
                Returned (w\<lparr>calls := calls w @
                  [Setsockopt SO_REUSEADDR 1, Bind server_address, Getsockname]\<rparr>))"
  using assms by (simp add: server_bind_def sockopts_append split: option.splits)

lemma server_bind_no_reuse:
  assumes "\<not> (reuse_address \<and> has_SO_REUSEADDR os)"
  shows "server_bind os reuse_address False server_address w =
           (case bind_error os (sockopts (calls w)) server_address of
              Some e \<Rightarrow> Raised e (w\<lparr>calls := calls w @ [Bind server_address]\<rparr>)
            | None \<Rightarrow> Returned (w\<lparr>calls := calls w @ [Bind server_address, Getsockname]\<rparr>))"
  using assms by (auto simp: server_bind_def split: option.splits)

lemma ResilientTCPServer_init_bind_fails:
  assumes "bind_error os
             (sockopts (calls w) @ (if has_SO_REUSEADDR os then [SO_REUSEADDR] else []))
             server_address = Some e"
  shows "ResilientTCPServer_init os server_address w =
           Raised e (w\<lparr>calls := calls w @ [Socket] @
             (if has_SO_REUSEADDR os then [Setsockopt SO_REUSEADDR 1] else []) @
             [Bind server_address, Close]\<rparr>)"
proof (cases "has_SO_REUSEADDR os")
  case True
  with assms show ?thesis
    by (simp add: ResilientTCPServer_init_def TCPServer_init_def allow_reuse_address_def
        allow_reuse_port_def server_bind_reuse sockopts_append)
next
  case False
  with assms show ?thesis
    by (simp add: ResilientTCPServer_init_def TCPServer_init_def allow_reuse_address_def
        allow_reuse_port_def server_bind_no_reuse sockopts_append)
qed

lemma ResilientTCPServer_init_output:
  assumes "ResilientTCPServer_init os server_address w = Returned w1"
  shows "stdout w1 = stdout w" and "stderr w1 = stderr w"
  using assms
  by (auto simp: ResilientTCPServer_init_def TCPServer_init_def server_bind_def
      server_activate_def Let_def split: option.splits if_splits)

text \<open>
  A server that keeps the library's default, \<^verbatim>\<open>allow_reuse_address = False\<close>, binds
  without the option.
\<close>

lemma TCPServer_init_default_bind_fails:
  assumes "bind_error os (sockopts (calls w)) server_address = Some e"
  shows "TCPServer_init os False False server_address w =
           Raised e (w\<lparr>calls := calls w @ [Socket, Bind server_address, Close]\<rparr>)"
  using assms by (simp add: TCPServer_init_def server_bind_no_reuse sockopts_append)

text \<open>
  C4. The class sets \<^verbatim>\<open>allow_reuse_address\<close>, so on a platform that has the option the
  constructor sets \<^verbatim>\<open>SO_REUSEADDR\<close> on the socket before it binds. When the operating
  system grants the address to a socket that has the option set, which is what it does
  for a port whose previous server has just stopped, and lets the socket listen, the
  constructor returns: the calls are \<^verbatim>\<open>socket\<close>, \<^verbatim>\<open>setsockopt\<close>, \<^verbatim>\<open>bind\<close>,
  \<^verbatim>\<open>getsockname\<close>, \<^verbatim>\<open>listen\<close>, in this order, and no exception is raised.
\<close>

theorem reuse_address_set_before_bind:
  assumes "has_SO_REUSEADDR os"
    and "\<forall>opts. SO_REUSEADDR \<in> set opts \<longrightarrow> bind_error os opts server_address = None"
    and "listen_error os server_address = None"
  shows "allow_reuse_address \<and>
         ResilientTCPServer_init os server_address w =
           Returned (w\<lparr>calls := calls w @
             [Socket, Setsockopt SO_REUSEADDR 1, Bind server_address, Getsockname,
              Listen 5]\<rparr>)"
proof -
  have "bind_error os (sockopts (calls w) @ [SO_REUSEADDR]) server_address = None"
    using assms(2) by simp
  then show ?thesis
    using assms(1,3)
    by (simp add: ResilientTCPServer_init_def TCPServer_init_def allow_reuse_address_def
        allow_reuse_port_def server_bind_reuse server_activate_def request_queue_size_def
        sockopts_append)
qed

theorem reuse_address_set_before_bind_witness:
  "ResilientTCPServer_init
     \<lparr>has_SO_REUSEADDR = True, has_SO_REUSEPORT = True,
      bind_error = (\<lambda>opts a. if SO_REUSEADDR \<in> set opts then None
                     else Some (Exc OSError ''[Errno 98] Address already in use'' [])),
      listen_error = (\<lambda>a. None)\<rparr>
     ([], 8000) \<lparr>handled = None, stdout = [], stderr = [], calls = []\<rparr> =
   Returned \<lparr>handled = None, stdout = [], stderr = [],
     calls = [Socket, Setsockopt SO_REUSEADDR 1, Bind ([], 8000), Getsockname, Listen 5]\<rparr> \<and>
   TCPServer_init
     \<lparr>has_SO_REUSEADDR = True, has_SO_REUSEPORT = True,
      bind_error = (\<lambda>opts a. if SO_REUSEADDR \<in> set opts then None
                     else Some (Exc OSError ''[Errno 98] Address already in use'' [])),
      listen_error = (\<lambda>a. None)\<rparr>
     False False ([], 8000) \<lparr>handled = None, stdout = [], stderr = [], calls = []\<rparr> =
   Raised (Exc OSError ''[Errno 98] Address already in use'' [])
     \<lparr>handled = None, stdout = [], stderr = [], calls = [Socket, Bind ([], 8000), Close]\<rparr>"
  using reuse_address_set_before_bind
    [of "\<lparr>has_SO_REUSEADDR = True, has_SO_REUSEPORT = True,
          bind_error = (\<lambda>opts a. if SO_REUSEADDR \<in> set opts then None
                         else Some (Exc OSError ''[Errno 98] Address already in use'' [])),
          listen_error = (\<lambda>a. None)\<rparr>"
        "([], 8000)" "\<lparr>handled = None, stdout = [], stderr = [], calls = []\<rparr>"]
    TCPServer_init_default_bind_fails
    [of "\<lparr>has_SO_REUSEADDR = True, has_SO_REUSEPORT = True,
          bind_error = (\<lambda>opts a. if SO_REUSEADDR \<in> set opts then None
                         else Some (Exc OSError ''[Errno 98] Address already in use'' [])),
          listen_error = (\<lambda>a. None)\<rparr>"
        "\<lparr>handled = None, stdout = [], stderr = [], calls = []\<rparr>" "([], 8000)"
        "Exc OSError ''[Errno 98] Address already in use'' []"]
  by simp

subsection \<open>The decimal numeral of an integer\<close>

lemma digit_cases:
  "d < 10 \<Longrightarrow>
     d = 0 \<or> d = 1 \<or> d = 2 \<or> d = 3 \<or> d = 4 \<or> d = 5 \<or> d = 6 \<or> d = 7 \<or> d = 8 \<or> d = (9::nat)"
  by arith

lemma digit_char:
  assumes "d < 10"
  shows "is_digit (''0123456789'' ! d)" and "digit_value (''0123456789'' ! d) = d"
    and "''0123456789'' ! d \<noteq> CHR ''-''"
    and "(''0123456789'' ! d = CHR ''0'') = (d = 0)"
  using digit_cases [OF assms]
  by (auto simp: is_digit_def digit_value_def)

lemma is_digit_char:
  "is_digit c \<Longrightarrow> digit_value c < 10 \<and> c = ''0123456789'' ! digit_value c"
  by (auto simp: is_digit_def digit_value_def)

lemma digits_value_snoc:
  "digits_value acc (s @ [c]) =
     (case digits_value acc s of
        None \<Rightarrow> None
      | Some n \<Rightarrow> if is_digit c then Some (10 * n + digit_value c) else None)"
  by (induction s arbitrary: acc) simp_all

lemma str_nat_nonempty: "str_nat n \<noteq> []"
  by (subst str_nat.simps) simp

lemma str_nat_snoc:
  "0 < n \<Longrightarrow> d < 10 \<Longrightarrow> str_nat (10 * n + d) = str_nat n @ [''0123456789'' ! d]"
  by (subst str_nat.simps) simp

lemma tl_str_nat_zero: "n = 0 \<Longrightarrow> tl (str_nat n) = []"
  by (subst str_nat.simps) simp

lemma digits_value_str_nat: "digits_value 0 (str_nat n) = Some n"
proof (induction n rule: str_nat.induct)
  case (1 n)
  show ?case
  proof (cases "n < 10")
    case True
    then show ?thesis
      by (subst str_nat.simps) (simp add: digit_char)
  next
    case False
    with 1 have "digits_value 0 (str_nat (n div 10)) = Some (n div 10)" by simp
    with False show ?thesis
      by (subst str_nat.simps) (simp add: digits_value_snoc digit_char)
  qed
qed

lemma hd_str_nat_zero: "(hd (str_nat n) = CHR ''0'') = (n = 0)"
proof (induction n rule: str_nat.induct)
  case (1 n)
  show ?case
  proof (cases "n < 10")
    case True
    then show ?thesis
      by (subst str_nat.simps) (simp add: digit_char)
  next
    case False
    with 1 have "(hd (str_nat (n div 10)) = CHR ''0'') = (n div 10 = 0)" by simp
    with False show ?thesis
      by (subst str_nat.simps) (simp add: str_nat_nonempty)
  qed
qed

lemma hd_str_nat_minus: "hd (str_nat n) \<noteq> CHR ''-''"
proof (induction n rule: str_nat.induct)
  case (1 n)
  show ?case
  proof (cases "n < 10")
    case True
    then show ?thesis
      by (subst str_nat.simps) (simp add: digit_char)
  next
    case False
    with 1 have "hd (str_nat (n div 10)) \<noteq> CHR ''-''" by simp
    with False show ?thesis
      by (subst str_nat.simps) (simp add: str_nat_nonempty)
  qed
qed

lemma nat_of_decimal_str_nat: "nat_of_decimal (str_nat n) = Some n"
proof (cases "n = 0")
  case True
  then show ?thesis
    using tl_str_nat_zero [of n]
    by (simp add: nat_of_decimal_def str_nat_nonempty digits_value_str_nat)
next
  case False
  then show ?thesis
    by (simp add: nat_of_decimal_def str_nat_nonempty hd_str_nat_zero digits_value_str_nat)
qed

lemma int_of_decimal_str_int: "int_of_decimal (str_int i) = Some i"
  by (simp add: int_of_decimal_def str_int_def nat_of_decimal_str_nat str_nat_nonempty
      hd_str_nat_minus)

lemma nat_of_decimal_unique: "nat_of_decimal s = Some n \<Longrightarrow> s = str_nat n"
proof (induction s arbitrary: n rule: rev_induct)
  case Nil
  then show ?case by (simp add: nat_of_decimal_def)
next
  case (snoc c s)
  show ?case
  proof (cases "s = []")
    case True
    with snoc.prems have "is_digit c" "n = digit_value c"
      by (simp_all add: nat_of_decimal_def split: if_splits)
    with True show ?thesis
      using is_digit_char [of c] by (subst str_nat.simps) simp
  next
    case False
    with snoc.prems have h: "hd s \<noteq> CHR ''0''" and d: "digits_value 0 (s @ [c]) = Some n"
      by (simp_all add: nat_of_decimal_def split: if_splits)
    from d obtain m where m: "digits_value 0 s = Some m" and c: "is_digit c"
      and n: "n = 10 * m + digit_value c"
      by (auto simp: digits_value_snoc split: option.splits if_splits)
    from m False h have "nat_of_decimal s = Some m"
      by (simp add: nat_of_decimal_def)
    then have s: "s = str_nat m" by (rule snoc.IH)
    with h have "m \<noteq> 0" using hd_str_nat_zero [of m] by auto
    then show ?thesis
      using is_digit_char [OF c] s n by (simp add: str_nat_snoc)
  qed
qed

lemma int_of_decimal_unique: "int_of_decimal s = Some i \<Longrightarrow> s = str_int i"
proof (cases "s \<noteq> [] \<and> hd s = CHR ''-''")
  case True
  assume a: "int_of_decimal s = Some i"
  with True obtain n where n: "nat_of_decimal (tl s) = Some n" "n \<noteq> 0" "i = - int n"
    by (auto simp: int_of_decimal_def split: option.splits if_splits)
  from n(1) have "tl s = str_nat n" by (rule nat_of_decimal_unique)
  with True n show ?thesis
    by (cases s) (simp_all add: str_int_def)
next
  case False
  assume a: "int_of_decimal s = Some i"
  with False obtain n where n: "nat_of_decimal s = Some n" "i = int n"
    by (auto simp: int_of_decimal_def split: if_splits)
  from n(1) have "s = str_nat n" by (rule nat_of_decimal_unique)
  with n show ?thesis by (simp add: str_int_def)
qed

lemma int_of_decimal_iff: "(int_of_decimal s = Some i) = (s = str_int i)"
  using int_of_decimal_unique int_of_decimal_str_int by blast

text \<open>
  C6. A run that reaches \<^verbatim>\<open>serve_forever\<close> has parsed a port \<open>p\<close> and calls
  \<^verbatim>\<open>serve_forever\<close> in a state whose standard output ends with the line
  \<^verbatim>\<open>Serving on http://localhost:\<close> followed by the decimal numeral of \<open>p\<close>, the last thing
  written before the call. And every start in which the arguments are parsed and the
  constructor returns is such a run. The text that follows the colon is the port and
  nothing else: read as a decimal numeral it denotes \<open>p\<close>, and it is the only string that
  does.
\<close>

theorem serving_line_before_serve_forever:
  "(main py_int os argv w = Serving w' \<longrightarrow>
      (\<exists>p. parse_args py_int argv = Namespace p \<and>
           stdout w' = stdout w @ [''Serving on http://localhost:'' @ str_int p] \<and>
           int_of_decimal (str_int p) = Some p)) \<and>
   (parse_args py_int argv = Namespace p \<and>
    ResilientTCPServer_init os ([], p) w = Returned w1 \<longrightarrow>
      main py_int os argv w =
        Serving (w1\<lparr>stdout := stdout w @ [''Serving on http://localhost:'' @ str_int p]\<rparr>)) \<and>
   (\<forall>q s. (int_of_decimal s = Some q) = (s = str_int q))"
proof (intro conjI impI allI)
  assume a: "main py_int os argv w = Serving w'"
  then obtain p where p: "parse_args py_int argv = Namespace p"
    by (cases "parse_args py_int argv") (simp_all add: main_def)
  with a obtain w1 where w1: "ResilientTCPServer_init os ([], p) w = Returned w1"
    by (cases "ResilientTCPServer_init os ([], p) w") (simp_all add: main_def)
  with a p have "w' = w1\<lparr>stdout := stdout w1 @ [''Serving on http://localhost:'' @ str_int p]\<rparr>"
    by (simp add: main_def)
  with ResilientTCPServer_init_output(1) [OF w1] p
  show "\<exists>p. parse_args py_int argv = Namespace p \<and>
           stdout w' = stdout w @ [''Serving on http://localhost:'' @ str_int p] \<and>
           int_of_decimal (str_int p) = Some p"
    by (simp add: int_of_decimal_str_int)
next
  assume a: "parse_args py_int argv = Namespace p \<and>
    ResilientTCPServer_init os ([], p) w = Returned w1"
  with ResilientTCPServer_init_output(1) [of os "([], p)" w w1]
  show "main py_int os argv w =
        Serving (w1\<lparr>stdout := stdout w @ [''Serving on http://localhost:'' @ str_int p]\<rparr>)"
    by (simp add: main_def)
next
  fix q s
  show "(int_of_decimal s = Some q) = (s = str_int q)"
    by (rule int_of_decimal_iff)
qed

theorem serving_line_before_serve_forever_witness:
  "main (\<lambda>s. if s = ''8001'' then Some 8001 else None)
     \<lparr>has_SO_REUSEADDR = True, has_SO_REUSEPORT = True,
      bind_error = (\<lambda>opts a. None), listen_error = (\<lambda>a. None)\<rparr>
     [''--port'', ''8001''] \<lparr>handled = None, stdout = [], stderr = [], calls = []\<rparr> =
   Serving \<lparr>handled = None, stdout = [''Serving on http://localhost:8001''], stderr = [],
     calls = [Socket, Setsockopt SO_REUSEADDR 1, Bind ([], 8001), Getsockname, Listen 5]\<rparr> \<and>
   main (\<lambda>s. None)
     \<lparr>has_SO_REUSEADDR = True, has_SO_REUSEPORT = True,
      bind_error = (\<lambda>opts a. None), listen_error = (\<lambda>a. None)\<rparr>
     [] \<lparr>handled = None, stdout = [], stderr = [], calls = []\<rparr> =
   Serving \<lparr>handled = None, stdout = [''Serving on http://localhost:8000''], stderr = [],
     calls = [Socket, Setsockopt SO_REUSEADDR 1, Bind ([], 8000), Getsockname, Listen 5]\<rparr> \<and>
   main (\<lambda>s. if s = ''65535'' then Some 65535 else None)
     \<lparr>has_SO_REUSEADDR = True, has_SO_REUSEPORT = True,
      bind_error = (\<lambda>opts a. None), listen_error = (\<lambda>a. None)\<rparr>
     [''--port=65535''] \<lparr>handled = None, stdout = [], stderr = [], calls = []\<rparr> =
   Serving \<lparr>handled = None, stdout = [''Serving on http://localhost:65535''], stderr = [],
     calls = [Socket, Setsockopt SO_REUSEADDR 1, Bind ([], 65535), Getsockname, Listen 5]\<rparr> \<and>
   str_int 8001 = ''8001'' \<and> str_int 8000 = ''8000'' \<and> str_int 65535 = ''65535'' \<and>
   str_int 0 = ''0'' \<and> str_int (- 1) = ''-1'' \<and>
   int_of_decimal ''8001'' = Some 8001 \<and> int_of_decimal ''08001'' = None"
proof -
  have p1: "parse_args (\<lambda>s. if s = ''8001'' then Some 8001 else None) [''--port'', ''8001''] =
             Namespace 8001"
    using parse_args_port_separate [of "''8001''" "\<lambda>s. if s = ''8001'' then Some 8001 else None"]
    by simp
  have p2: "parse_args (\<lambda>s. None) [] = Namespace 8000"
    by (simp add: parse_args_def DEFAULT_PORT_def)
  have p3: "parse_args (\<lambda>s. if s = ''65535'' then Some 65535 else None) [''--port=65535''] =
             Namespace 65535"
    using parse_args_port_explicit
      [of "\<lambda>s. if s = ''65535'' then Some 65535 else None" "''65535''"]
    by simp
  have i: "ResilientTCPServer_init
      \<lparr>has_SO_REUSEADDR = True, has_SO_REUSEPORT = True,
       bind_error = (\<lambda>opts a. None), listen_error = (\<lambda>a. None)\<rparr>
      ([], q) \<lparr>handled = None, stdout = [], stderr = [], calls = []\<rparr> =
    Returned \<lparr>handled = None, stdout = [], stderr = [],
      calls = [Socket, Setsockopt SO_REUSEADDR 1, Bind ([], q), Getsockname, Listen 5]\<rparr>"
    for q
    by (simp add: ResilientTCPServer_init_def TCPServer_init_def allow_reuse_address_def
        allow_reuse_port_def server_bind_def server_activate_def request_queue_size_def)
  have d: "int_of_decimal ''08001'' = None"
    by (simp add: int_of_decimal_def nat_of_decimal_def)
  note t = serving_line_before_serve_forever
    [where os = "\<lparr>has_SO_REUSEADDR = True, has_SO_REUSEPORT = True,
                   bind_error = (\<lambda>opts a. None), listen_error = (\<lambda>a. None)\<rparr>"
       and w = "\<lparr>handled = None, stdout = [], stderr = [], calls = []\<rparr>"]
  have m1: "main (\<lambda>s. if s = ''8001'' then Some 8001 else None)
     \<lparr>has_SO_REUSEADDR = True, has_SO_REUSEPORT = True,
      bind_error = (\<lambda>opts a. None), listen_error = (\<lambda>a. None)\<rparr>
     [''--port'', ''8001''] \<lparr>handled = None, stdout = [], stderr = [], calls = []\<rparr> =
   Serving \<lparr>handled = None, stdout = [''Serving on http://localhost:'' @ str_int 8001],
     stderr = [],
     calls = [Socket, Setsockopt SO_REUSEADDR 1, Bind ([], 8001), Getsockname, Listen 5]\<rparr>"
    using t [where py_int = "\<lambda>s. if s = ''8001'' then Some 8001 else None"
          and argv = "[''--port'', ''8001'']" and p = 8001] p1 i [of 8001]
    by simp
  have m2: "main (\<lambda>s. None)
     \<lparr>has_SO_REUSEADDR = True, has_SO_REUSEPORT = True,
      bind_error = (\<lambda>opts a. None), listen_error = (\<lambda>a. None)\<rparr>
     [] \<lparr>handled = None, stdout = [], stderr = [], calls = []\<rparr> =
   Serving \<lparr>handled = None, stdout = [''Serving on http://localhost:'' @ str_int 8000],
     stderr = [],
     calls = [Socket, Setsockopt SO_REUSEADDR 1, Bind ([], 8000), Getsockname, Listen 5]\<rparr>"
    using t [where py_int = "\<lambda>s. None" and argv = "[]" and p = 8000] p2 i [of 8000]
    by simp
  have m3: "main (\<lambda>s. if s = ''65535'' then Some 65535 else None)
     \<lparr>has_SO_REUSEADDR = True, has_SO_REUSEPORT = True,
      bind_error = (\<lambda>opts a. None), listen_error = (\<lambda>a. None)\<rparr>
     [''--port=65535''] \<lparr>handled = None, stdout = [], stderr = [], calls = []\<rparr> =
   Serving \<lparr>handled = None, stdout = [''Serving on http://localhost:'' @ str_int 65535],
     stderr = [],
     calls = [Socket, Setsockopt SO_REUSEADDR 1, Bind ([], 65535), Getsockname, Listen 5]\<rparr>"
    using t [where py_int = "\<lambda>s. if s = ''65535'' then Some 65535 else None"
          and argv = "[''--port=65535'']" and p = 65535] p3 i [of 65535]
    by simp
  have s: "str_int 8001 = ''8001''" "str_int 8000 = ''8000''" "str_int 65535 = ''65535''"
    "str_int 0 = ''0''" "str_int (- 1) = ''-1''"
    by (simp_all add: str_int_def str_nat.simps)
  have r: "int_of_decimal ''8001'' = Some 8001"
    using t [where py_int = "\<lambda>s. None" and argv = "[]"] s(1) by simp
  show ?thesis
    using m1 m2 m3 s r d by simp
qed

text \<open>
  C7. When \<^verbatim>\<open>bind\<close> raises an exception \<open>e\<close> for the socket as the constructor has
  prepared it, the constructor closes the socket and lets \<open>e\<close> go; nothing in the module
  catches it. The run ends there: nothing has been written to standard output, the
  socket never listens, \<^verbatim>\<open>serve_forever\<close> is not called, and the interpreter writes the
  traceback of \<open>e\<close> to standard error and exits with status 1.
\<close>

theorem bind_failure_is_fatal:
  assumes "parse_args py_int argv = Namespace p"
    and "bind_error os
           (sockopts (calls w) @ (if has_SO_REUSEADDR os then [SO_REUSEADDR] else []))
           ([], p) = Some e"
    and "issubclass (exc_cls e) Exception"
  shows "main py_int os argv w =
           Uncaught e (w\<lparr>calls := calls w @ [Socket] @
             (if has_SO_REUSEADDR os then [Setsockopt SO_REUSEADDR 1] else []) @
             [Bind ([], p), Close]\<rparr>) \<and>
         (\<forall>w'. main py_int os argv w \<noteq> Serving w') \<and>
         interpreter_exit (main py_int os argv w) =
           Some (1, w\<lparr>calls := calls w @ [Socket] @
                       (if has_SO_REUSEADDR os then [Setsockopt SO_REUSEADDR 1] else []) @
                       [Bind ([], p), Close],
                     stderr := stderr w @ exc_tb e\<rparr>)"
proof -
  have m: "main py_int os argv w =
           Uncaught e (w\<lparr>calls := calls w @ [Socket] @
             (if has_SO_REUSEADDR os then [Setsockopt SO_REUSEADDR 1] else []) @
             [Bind ([], p), Close]\<rparr>)"
    using assms(1) ResilientTCPServer_init_bind_fails [OF assms(2)]
    by (simp add: main_def)
  show ?thesis
    using assms(3) by (simp add: m interpreter_exit_def)
qed

theorem bind_failure_is_fatal_witness:
  "main (\<lambda>s. None)
     \<lparr>has_SO_REUSEADDR = True, has_SO_REUSEPORT = True,
      bind_error = (\<lambda>opts a. Some (Exc OSError ''[Errno 98] Address already in use''
                      [''OSError: [Errno 98] Address already in use''])),
      listen_error = (\<lambda>a. None)\<rparr>
     [] \<lparr>handled = None, stdout = [], stderr = [], calls = []\<rparr> =
   Uncaught (Exc OSError ''[Errno 98] Address already in use''
               [''OSError: [Errno 98] Address already in use''])
     \<lparr>handled = None, stdout = [], stderr = [],
      calls = [Socket, Setsockopt SO_REUSEADDR 1, Bind ([], 8000), Close]\<rparr>"
proof -
  have p: "parse_args (\<lambda>s. None) [] = Namespace 8000"
    by (simp add: parse_args_def DEFAULT_PORT_def)
  show ?thesis
    using bind_failure_is_fatal
      [of "\<lambda>s. None" "[]" 8000
          "\<lparr>has_SO_REUSEADDR = True, has_SO_REUSEPORT = True,
            bind_error = (\<lambda>opts a. Some (Exc OSError ''[Errno 98] Address already in use''
                            [''OSError: [Errno 98] Address already in use''])),
            listen_error = (\<lambda>a. None)\<rparr>"
          "\<lparr>handled = None, stdout = [], stderr = [], calls = []\<rparr>"
          "Exc OSError ''[Errno 98] Address already in use''
             [''OSError: [Errno 98] Address already in use'']"]
      p
    by (simp add: issubclass_def)
qed

section \<open>Properties of serving a file\<close>






end
